theory Spec2Isabelle
  imports Main
begin

section \<open>Data model\<close>

text \<open>
  The records of package \<open>repo\<close> (GoUpdate), with the fields the commands read and write.
  Go's \<open>int\<close> fields are modelled as \<open>int\<close>: the commands only compare and copy them.
\<close>

record Channel =
  Id :: string
  Name :: string
  CurrentVersion :: int

record VersionSummary =
  vsId :: int
  vsName :: string

record Index =
  Channels :: "Channel list"
  Versions :: "VersionSummary list"

record FileSource =
  SourceType :: string
  Url :: string

record FileInfo =
  fiPath :: string
  Sources :: "FileSource list"
  fiMD5 :: string

record Version =
  verId :: int
  verName :: string
  Files :: "FileInfo list"

text \<open>\<open>md5util.FileMD5Data\<close>: one hashed file, its path relative to the hashed directory.\<close>

record FileMD5Data =
  Path :: string
  MD5 :: string

text \<open>\<open>fileStorageData\<close> of update\_repo.go, lines 70-79.\<close>

record fileStorageData =
  FileStoragePath :: string
  InstallPath :: string
  fsdMD5 :: string

section \<open>Errors and outcomes\<close>

text \<open>
  A \<open>subcmd.Error\<close> is a message and an exit code. The message is modelled by the place
  that builds it; the exit code is the integer the source passes.
\<close>

datatype message =
    RepoDirError | RepoNotDir
  | StorageDirError | StorageNotDir
  | NewVersionDirError | NewVersionNotDir
  | IndexReadError | IndexParseError
  | NewVersionMD5Error | StorageMD5Error
  | CreateFileError | ReadFileError
  | VersionFileError | IndexWriteError
  | ChannelExistsError

datatype outcome = Success | Failed message int | Panicked

datatype 'a go = Returns 'a | Panics

section \<open>Strings and paths\<close>

fun show_nat :: "nat \<Rightarrow> string" where
  "show_nat n =
     (if n < 10 then [''0123456789'' ! n]
      else show_nat (n div 10) @ [''0123456789'' ! (n mod 10)])"

declare show_nat.simps [simp del]

text \<open>\<open>fmt.Sprintf("%d", i)\<close>.\<close>

definition itoa :: "int \<Rightarrow> string" where
  "itoa i = (if i < 0 then CHR ''-'' # show_nat (nat (- i)) else show_nat (nat i))"

text \<open>\<open>strings.HasSuffix\<close>.\<close>

definition HasSuffix :: "string \<Rightarrow> string \<Rightarrow> bool" where
  "HasSuffix s suffix =
     (length suffix \<le> length s \<and> drop (length s - length suffix) s = suffix)"

text \<open>
  \<open>path.Join\<close> of two elements: empty elements are ignored, the others are joined by a
  slash. The final \<open>Clean\<close> is not modelled: paths are taken as given.
\<close>

definition path_join :: "string \<Rightarrow> string \<Rightarrow> string" where
  "path_join a b = (if a = [] then b else if b = [] then a else a @ ''/'' @ b)"

text \<open>\<open>filepath.Base\<close> on a slash-separated path.\<close>

definition Base :: "string \<Rightarrow> string" where
  "Base p =
     (if p = [] then ''.''
      else (let q = dropWhile (\<lambda>c. c = CHR ''/'') (rev p)
            in if q = [] then ''/'' else rev (takeWhile (\<lambda>c. c \<noteq> CHR ''/'') q)))"

section \<open>The file system and the external capabilities\<close>

datatype node = Dir | File string

type_synonym filesystem = "string \<Rightarrow> node option"

datatype oserror = ErrNotExist | ErrExist | ErrPermission | ErrOther

datatype syscall = SysStat | SysOpenRead | SysCreateExcl | SysOpenWrite

text \<open>
  What the commands take from outside the files modelled here: the faults the operating
  system may answer a call with (permissions, I/O errors), the recursive MD5 scan
  \<open>md5util.RecursiveMD5Calc\<close> (its source is not among the files; it is a parameter, with
  \<open>None\<close> for a scan that returns an error), and \<open>encoding/json\<close> for the two record types
  that are written (\<open>None\<close> for text that does not parse).
\<close>

record env =
  fault :: "syscall \<Rightarrow> string \<Rightarrow> oserror option"
  RecursiveMD5Calc :: "filesystem \<Rightarrow> string \<Rightarrow> FileMD5Data list option"
  Unmarshal :: "string \<Rightarrow> Index option"
  MarshalIndex :: "Index \<Rightarrow> string"
  MarshalVersion :: "Version \<Rightarrow> string"

text \<open>\<open>os.Stat\<close>: an error, or whether the path is a directory.\<close>

definition os_Stat :: "env \<Rightarrow> filesystem \<Rightarrow> string \<Rightarrow> oserror + bool" where
  "os_Stat e fs p =
     (case fault e SysStat p of
        Some err \<Rightarrow> Inl err
      | None \<Rightarrow>
          (case fs p of
             None \<Rightarrow> Inl ErrNotExist
           | Some Dir \<Rightarrow> Inr True
           | Some (File c) \<Rightarrow> Inr False))"

text \<open>\<open>ioutil.ReadFile\<close>: reading a directory is an error.\<close>

definition ReadFile :: "env \<Rightarrow> filesystem \<Rightarrow> string \<Rightarrow> oserror + string" where
  "ReadFile e fs p =
     (case fault e SysOpenRead p of
        Some err \<Rightarrow> Inl err
      | None \<Rightarrow>
          (case fs p of
             None \<Rightarrow> Inl ErrNotExist
           | Some Dir \<Rightarrow> Inl ErrOther
           | Some (File c) \<Rightarrow> Inr c))"

text \<open>
  \<open>os.Open\<close> followed by \<open>io.Copy\<close> from the opened file: the bytes that reach the copy.
  A directory opens; reading it fails inside \<open>io.Copy\<close>, whose error the source drops,
  so nothing is copied.
\<close>

definition os_Open :: "env \<Rightarrow> filesystem \<Rightarrow> string \<Rightarrow> oserror + string" where
  "os_Open e fs p =
     (case fault e SysOpenRead p of
        Some err \<Rightarrow> Inl err
      | None \<Rightarrow>
          (case fs p of
             None \<Rightarrow> Inl ErrNotExist
           | Some Dir \<Rightarrow> Inr []
           | Some (File c) \<Rightarrow> Inr c))"

text \<open>\<open>os.OpenFile\<close> with \<open>O_WRONLY|O_CREATE|O_EXCL\<close>: creates an empty file, never opens an existing path.\<close>

definition OpenFile_excl :: "env \<Rightarrow> filesystem \<Rightarrow> string \<Rightarrow> oserror + filesystem" where
  "OpenFile_excl e fs p =
     (case fault e SysCreateExcl p of
        Some err \<Rightarrow> Inl err
      | None \<Rightarrow>
          (case fs p of
             None \<Rightarrow> Inr (fs(p \<mapsto> File []))
           | Some n \<Rightarrow> Inl ErrExist))"

text \<open>\<open>os.OpenFile\<close> with \<open>O_RDWR\<close> and no other flag: the file must exist and keeps its bytes.\<close>

definition OpenFile_rdwr :: "env \<Rightarrow> filesystem \<Rightarrow> string \<Rightarrow> oserror + filesystem" where
  "OpenFile_rdwr e fs p =
     (case fault e SysOpenWrite p of
        Some err \<Rightarrow> Inl err
      | None \<Rightarrow>
          (case fs p of
             None \<Rightarrow> Inl ErrNotExist
           | Some Dir \<Rightarrow> Inl ErrOther
           | Some (File c) \<Rightarrow> Inr fs))"

text \<open>\<open>os.OpenFile\<close> with \<open>O_WRONLY|O_TRUNC\<close>: the file must exist and is emptied.\<close>

definition OpenFile_trunc :: "env \<Rightarrow> filesystem \<Rightarrow> string \<Rightarrow> oserror + filesystem" where
  "OpenFile_trunc e fs p =
     (case fault e SysOpenWrite p of
        Some err \<Rightarrow> Inl err
      | None \<Rightarrow>
          (case fs p of
             None \<Rightarrow> Inl ErrNotExist
           | Some Dir \<Rightarrow> Inl ErrOther
           | Some (File c) \<Rightarrow> Inr (fs(p \<mapsto> File []))))"

text \<open>
  \<open>File.Write\<close> on a file just opened: the bytes go to offset 0 and replace what was
  there; bytes of the old content beyond the written length stay. The commands drop the
  result of \<open>Write\<close> (and of \<open>json.Marshal\<close> and \<open>io.Copy\<close>); the model takes a write
  on an open file to go through.
\<close>

definition write_at_start :: "string \<Rightarrow> string \<Rightarrow> string" where
  "write_at_start old bytes = bytes @ drop (length bytes) old"

definition Write :: "filesystem \<Rightarrow> string \<Rightarrow> string \<Rightarrow> filesystem" where
  "Write fs p bytes =
     (case fs p of
        Some (File old) \<Rightarrow> fs(p \<mapsto> File (write_at_start old bytes))
      | Some Dir \<Rightarrow> fs
      | None \<Rightarrow> fs)"

section \<open>The blocks the three commands share\<close>

text \<open>\<open>path.Join(repoDir, "index.json")\<close>; \<open>repo.IndexFileName\<close> in update\_repo.go.\<close>

definition index_file :: "string \<Rightarrow> string" where
  "index_file repoDir = path_join repoDir ''index.json''"

text \<open>
  The directory check each command opens with (update\_repo.go 87-105, 107-125, 127-145;
  mkchan.go 51-69; setchan 192-210): the exit code depends on the kind of the error.
\<close>

definition check_dir ::
  "env \<Rightarrow> filesystem \<Rightarrow> string \<Rightarrow> message \<Rightarrow> int \<Rightarrow> int \<Rightarrow> message \<Rightarrow> int \<Rightarrow> outcome" where
  "check_dir e fs p m codeNotExist codePermission mNotDir codeNotDir =
     (case os_Stat e fs p of
        Inl err \<Rightarrow>
          Failed m (case err of
                      ErrNotExist \<Rightarrow> codeNotExist
                    | ErrPermission \<Rightarrow> codePermission
                    | ErrExist \<Rightarrow> - 2
                    | ErrOther \<Rightarrow> - 2)
      | Inr isDir \<Rightarrow> if isDir then Success else Failed mNotDir codeNotDir)"

text \<open>
  Reading and parsing the index file (update\_repo.go 150-174; mkchan.go 73-97;
  setchan 214-238).
\<close>

definition read_index :: "env \<Rightarrow> filesystem \<Rightarrow> string \<Rightarrow> outcome + Index" where
  "read_index e fs indexFilePath =
     (case ReadFile e fs indexFilePath of
        Inl err \<Rightarrow>
          Inl (Failed IndexReadError
                 (case err of
                    ErrNotExist \<Rightarrow> 13
                  | ErrPermission \<Rightarrow> 23
                  | ErrExist \<Rightarrow> - 2
                  | ErrOther \<Rightarrow> - 2))
      | Inr fileData \<Rightarrow>
          (case Unmarshal e fileData of
             None \<Rightarrow> Inl (Failed IndexParseError 12)
           | Some indexData \<Rightarrow> Inr indexData))"

text \<open>The exit code of a failed open of the index file for writing.\<close>

definition index_write_code :: "oserror \<Rightarrow> int" where
  "index_write_code err =
     (case err of ErrPermission \<Rightarrow> 45 | ErrNotExist \<Rightarrow> - 2 | ErrExist \<Rightarrow> - 2 | ErrOther \<Rightarrow> - 2)"

section \<open>setchan\<close>

text \<open>
  The loop of \<open>SetChan\<close> (lines 241-256): the channel list after the loop, and
  \<open>chanExists\<close>. The first channel with the ID is removed when the version ID is negative
  and receives the version ID otherwise; the loop stops there.
\<close>

fun set_existing :: "Channel list \<Rightarrow> string \<Rightarrow> int \<Rightarrow> Channel list \<times> bool" where
  "set_existing [] chanId versionId = ([], False)"
| "set_existing (existingChan # rest) chanId versionId =
     (if Id existingChan = chanId then
        (if versionId < 0 then (rest, True)
         else (existingChan\<lparr>CurrentVersion := versionId\<rparr> # rest, True))
      else (case set_existing rest chanId versionId of
              (rest', chanExists) \<Rightarrow> (existingChan # rest', chanExists)))"

text \<open>Lines 240-265: the index after the loop and the append that follows it.\<close>

definition setchan_index :: "Index \<Rightarrow> string \<Rightarrow> int \<Rightarrow> Index" where
  "setchan_index indexData chanId versionId =
     (case set_existing (Channels indexData) chanId versionId of
        (chans, chanExists) \<Rightarrow>
          if chanExists then indexData\<lparr>Channels := chans\<rparr>
          else indexData\<lparr>Channels :=
                 chans @ [\<lparr>Id = chanId, Name = chanId, CurrentVersion = versionId\<rparr>]\<rparr>)"

definition SetChan :: "env \<Rightarrow> filesystem \<Rightarrow> string \<Rightarrow> string \<Rightarrow> int \<Rightarrow> filesystem \<times> outcome" where
  "SetChan e fs repoDir chanId versionId =
     (case check_dir e fs repoDir RepoDirError 10 20 RepoNotDir 10 of
        Failed m c \<Rightarrow> (fs, Failed m c)
      | Panicked \<Rightarrow> (fs, Panicked)
      | Success \<Rightarrow>
          (case read_index e fs (index_file repoDir) of
             Inl err \<Rightarrow> (fs, err)
           | Inr indexData \<Rightarrow>
               (case OpenFile_trunc e fs (index_file repoDir) of
                  Inl err \<Rightarrow> (fs, Failed IndexWriteError (index_write_code err))
                | Inr fs1 \<Rightarrow>
                    (Write fs1 (index_file repoDir)
                       (MarshalIndex e (setchan_index indexData chanId versionId)),
                     Success))))"

section \<open>mkchan\<close>

text \<open>Lines 99-110 of mkchan.go: the check for an existing channel and the append.\<close>

definition createchan_index :: "Index \<Rightarrow> string \<Rightarrow> outcome + Index" where
  "createchan_index indexData chanId =
     (if list_ex (\<lambda>existingChan. Id existingChan = chanId) (Channels indexData)
      then Inl (Failed ChannelExistsError 42)
      else Inr (indexData\<lparr>Channels :=
                  Channels indexData @ [\<lparr>Id = chanId, Name = chanId, CurrentVersion = 0\<rparr>]\<rparr>))"

definition CreateChan :: "env \<Rightarrow> filesystem \<Rightarrow> string \<Rightarrow> string \<Rightarrow> filesystem \<times> outcome" where
  "CreateChan e fs repoDir chanId =
     (case check_dir e fs repoDir RepoDirError 10 20 RepoNotDir 10 of
        Failed m c \<Rightarrow> (fs, Failed m c)
      | Panicked \<Rightarrow> (fs, Panicked)
      | Success \<Rightarrow>
          (case read_index e fs (index_file repoDir) of
             Inl err \<Rightarrow> (fs, err)
           | Inr indexData \<Rightarrow>
               (case createchan_index indexData chanId of
                  Inl err \<Rightarrow> (fs, err)
                | Inr indexData' \<Rightarrow>
                    (case OpenFile_rdwr e fs (index_file repoDir) of
                       Inl err \<Rightarrow> (fs, Failed IndexWriteError (index_write_code err))
                     | Inr fs1 \<Rightarrow>
                         (Write fs1 (index_file repoDir)
                            (MarshalIndex e indexData'),
                          Success)))))"

section \<open>update\<close>

subsection \<open>Storage names (update\_repo.go, lines 211-228)\<close>

text \<open>The two \<open>Sprintf\<close> formats of the naming loop, chosen by the sign of \<open>prefixNum\<close>.\<close>

definition storage_name :: "string \<Rightarrow> nat \<Rightarrow> int \<Rightarrow> string \<Rightarrow> string" where
  "storage_name md5 prefixSize prefixNum storageNameBase =
     (if prefixNum < 0 then take prefixSize md5 @ ''-'' @ storageNameBase
      else take prefixSize md5 @ ''-'' @ itoa prefixNum @ ''-'' @ storageNameBase)"

text \<open>\<open>!os.IsNotExist(err)\<close>, the condition of the loop: true when \<open>os.Stat\<close> succeeds, and
  also when it fails with any error other than "does not exist".\<close>

definition stat_not_missing :: "env \<Rightarrow> filesystem \<Rightarrow> string \<Rightarrow> bool" where
  "stat_not_missing e fs p =
     (case os_Stat e fs p of
        Inl ErrNotExist \<Rightarrow> False
      | Inl ErrExist \<Rightarrow> True
      | Inl ErrPermission \<Rightarrow> True
      | Inl ErrOther \<Rightarrow> True
      | Inr isDir \<Rightarrow> True)"

text \<open>
  The loop of lines 216-228, entered with the current \<open>prefixSize\<close>, \<open>prefixNum\<close> and
  \<open>storageName\<close>. It may run forever, so the result is an option: \<open>None\<close> is a loop that
  does not end. \<open>Panics\<close> is the slice \<open>MD5[:prefixSize]\<close> beyond the length of the hash.
  \<open>prefixNum\<close> is a Go \<open>int\<close>; it is modelled unbounded, which differs from the source
  only after \<open>2^63\<close> rounds.
\<close>

partial_function (option) find_storage_name ::
  "env \<Rightarrow> filesystem \<Rightarrow> string \<Rightarrow> string \<Rightarrow> string \<Rightarrow> nat \<Rightarrow> int \<Rightarrow> string \<Rightarrow> string go option"
where
  "find_storage_name e fs filesDir md5 storageNameBase prefixSize prefixNum storageName =
     (if stat_not_missing e fs (path_join filesDir storageName) then
        (if prefixSize < 32 then
           (if length md5 < prefixSize + 1 then Some Panics
            else find_storage_name e fs filesDir md5 storageNameBase (prefixSize + 1) prefixNum
                   (storage_name md5 (prefixSize + 1) prefixNum storageNameBase))
         else
           (if length md5 < prefixSize then Some Panics
            else find_storage_name e fs filesDir md5 storageNameBase prefixSize (prefixNum + 1)
                   (storage_name md5 prefixSize (prefixNum + 1) storageNameBase)))
      else Some (Returns storageName))"

declare find_storage_name.simps [code]

text \<open>Lines 211-228 for one new file: the first name, then the loop.\<close>

definition new_storage_name :: "env \<Rightarrow> filesystem \<Rightarrow> string \<Rightarrow> FileMD5Data \<Rightarrow> string go option" where
  "new_storage_name e fs filesDir nvMD5Data =
     (if length (MD5 nvMD5Data) < 4 then Some Panics
      else find_storage_name e fs filesDir (MD5 nvMD5Data) (Base (Path nvMD5Data)) 4 (- 1)
             (storage_name (MD5 nvMD5Data) 4 (- 1) (Base (Path nvMD5Data))))"

subsection \<open>Matching new files against storage (lines 196-233)\<close>

datatype matching = Matched FileMD5Data | Unmatched | NotVisited

text \<open>
  The inner loop for one new file: the first storage entry with an equal MD5, or
  \<open>Unmatched\<close> when the last entry is reached without one. Over an empty list the body
  never runs.
\<close>

fun match_storage :: "FileMD5Data \<Rightarrow> FileMD5Data list \<Rightarrow> matching" where
  "match_storage nvMD5Data [] = NotVisited"
| "match_storage nvMD5Data (fsMD5Data # rest) =
     (if MD5 nvMD5Data = MD5 fsMD5Data then Matched fsMD5Data
      else if rest = [] then Unmatched
      else match_storage nvMD5Data rest)"

text \<open>
  The outer loop, with \<open>fileStorageMap\<close> and \<open>addToStorage\<close> as accumulators. Every name
  is chosen against the file system as it is before the first copy.
\<close>

fun diff_files ::
  "env \<Rightarrow> filesystem \<Rightarrow> string \<Rightarrow> FileMD5Data list \<Rightarrow> FileMD5Data list \<Rightarrow>
   fileStorageData list \<Rightarrow> fileStorageData list \<Rightarrow>
   (fileStorageData list \<times> fileStorageData list) go option" where
  "diff_files e fs filesDir [] fileStorageMD5s fileStorageMap addToStorage =
     Some (Returns (fileStorageMap, addToStorage))"
| "diff_files e fs filesDir (nvMD5Data # rest) fileStorageMD5s fileStorageMap addToStorage =
     (case match_storage nvMD5Data fileStorageMD5s of
        Matched fsMD5Data \<Rightarrow>
          diff_files e fs filesDir rest fileStorageMD5s
            (fileStorageMap @
               [\<lparr>FileStoragePath = Path fsMD5Data, InstallPath = Path nvMD5Data,
                 fsdMD5 = MD5 fsMD5Data\<rparr>])
            addToStorage
      | NotVisited \<Rightarrow>
          diff_files e fs filesDir rest fileStorageMD5s fileStorageMap addToStorage
      | Unmatched \<Rightarrow>
          (case new_storage_name e fs filesDir nvMD5Data of
             None \<Rightarrow> None
           | Some Panics \<Rightarrow> Some Panics
           | Some (Returns storageName) \<Rightarrow>
               diff_files e fs filesDir rest fileStorageMD5s fileStorageMap
                 (addToStorage @
                    [\<lparr>FileStoragePath = storageName, InstallPath = Path nvMD5Data,
                      fsdMD5 = MD5 nvMD5Data\<rparr>])))"

text \<open>Lines 190-194: the dummy entry that stands in for an empty storage directory.\<close>

definition with_dummy :: "FileMD5Data list \<Rightarrow> FileMD5Data list" where
  "with_dummy fileStorageMD5s =
     (if length fileStorageMD5s \<le> 0 then [\<lparr>Path = [], MD5 = []\<rparr>] else fileStorageMD5s)"

subsection \<open>Copying new files into storage (lines 236-249)\<close>

fun copy_files ::
  "env \<Rightarrow> filesystem \<Rightarrow> string \<Rightarrow> string \<Rightarrow> fileStorageData list \<Rightarrow> fileStorageData list \<Rightarrow>
   filesystem \<times> (outcome + fileStorageData list)" where
  "copy_files e fs filesDir newVersionDir [] fileStorageMap = (fs, Inr fileStorageMap)"
| "copy_files e fs filesDir newVersionDir (mapping # rest) fileStorageMap =
     (case OpenFile_excl e fs (path_join filesDir (FileStoragePath mapping)) of
        Inl createErr \<Rightarrow> (fs, Inl (Failed CreateFileError 42))
      | Inr fs1 \<Rightarrow>
          (case os_Open e fs1 (path_join newVersionDir (InstallPath mapping)) of
             Inl readErr \<Rightarrow> (fs1, Inl (Failed ReadFileError 43))
           | Inr bytes \<Rightarrow>
               copy_files e
                 (Write fs1 (path_join filesDir (FileStoragePath mapping)) bytes)
                 filesDir newVersionDir rest (fileStorageMap @ [mapping])))"

subsection \<open>The version record (lines 254-264)\<close>

definition file_info :: "string \<Rightarrow> fileStorageData \<Rightarrow> FileInfo" where
  "file_info urlBase fsMapData =
     \<lparr>fiPath = InstallPath fsMapData,
      Sources = [\<lparr>SourceType = ''http'', Url = urlBase @ FileStoragePath fsMapData\<rparr>],
      fiMD5 = fsdMD5 fsMapData\<rparr>"

definition build_version :: "int \<Rightarrow> string \<Rightarrow> string \<Rightarrow> fileStorageData list \<Rightarrow> Version" where
  "build_version versionId versionName urlBase fileStorageMap =
     \<lparr>verId = versionId, verName = versionName, Files = map (file_info urlBase) fileStorageMap\<rparr>"

subsection \<open>Writing the version file and the index (lines 266-307)\<close>

definition version_file :: "string \<Rightarrow> int \<Rightarrow> string" where
  "version_file repoDir versionId = path_join repoDir (itoa versionId @ ''.json'')"

definition version_write_code :: "oserror \<Rightarrow> int" where
  "version_write_code err =
     (case err of ErrExist \<Rightarrow> 44 | ErrPermission \<Rightarrow> 45 | ErrNotExist \<Rightarrow> - 2 | ErrOther \<Rightarrow> - 2)"

definition write_version_and_index ::
  "env \<Rightarrow> filesystem \<Rightarrow> string \<Rightarrow> Version \<Rightarrow> Index \<Rightarrow> filesystem \<times> outcome" where
  "write_version_and_index e fs repoDir versionData indexData =
     (case OpenFile_excl e fs (version_file repoDir (verId versionData)) of
        Inl err \<Rightarrow> (fs, Failed VersionFileError (version_write_code err))
      | Inr fs1 \<Rightarrow>
          (let fs2 = Write fs1 (version_file repoDir (verId versionData))
                       (MarshalVersion e versionData)
           in case OpenFile_rdwr e fs2 (index_file repoDir) of
                Inl err \<Rightarrow> (fs2, Failed IndexWriteError (index_write_code err))
              | Inr fs3 \<Rightarrow>
                  (Write fs3 (index_file repoDir) (MarshalIndex e indexData), Success)))"

subsection \<open>The steps before any write (lines 83-185)\<close>

text \<open>
  The three directory checks, the index and the two MD5 scans. The third check is the
  one the source makes "for the new version's directory": it calls \<open>os.Stat(filesDir)\<close>.
\<close>

definition prepare ::
  "env \<Rightarrow> filesystem \<Rightarrow> string \<Rightarrow> string \<Rightarrow> string \<Rightarrow>
   outcome + (Index \<times> FileMD5Data list \<times> FileMD5Data list)" where
  "prepare e fs repoDir filesDir newVersionDir =
     (case check_dir e fs repoDir RepoDirError 10 20 RepoNotDir 10 of
        Failed m c \<Rightarrow> Inl (Failed m c)
      | Panicked \<Rightarrow> Inl Panicked
      | Success \<Rightarrow>
     (case check_dir e fs filesDir StorageDirError 11 21 StorageNotDir 11 of
        Failed m c \<Rightarrow> Inl (Failed m c)
      | Panicked \<Rightarrow> Inl Panicked
      | Success \<Rightarrow>
     (case check_dir e fs filesDir NewVersionDirError 12 22 NewVersionNotDir 12 of
        Failed m c \<Rightarrow> Inl (Failed m c)
      | Panicked \<Rightarrow> Inl Panicked
      | Success \<Rightarrow>
     (case read_index e fs (index_file repoDir) of
        Inl err \<Rightarrow> Inl err
      | Inr indexData \<Rightarrow>
     (case RecursiveMD5Calc e fs newVersionDir of
        None \<Rightarrow> Inl (Failed NewVersionMD5Error 30)
      | Some newVersionMD5s \<Rightarrow>
     (case RecursiveMD5Calc e fs filesDir of
        None \<Rightarrow> Inl (Failed StorageMD5Error 31)
      | Some fileStorageMD5s \<Rightarrow> Inr (indexData, newVersionMD5s, fileStorageMD5s)))))))"

subsection \<open>\<open>UpdateRepo\<close>\<close>

text \<open>Lines 83-85.\<close>

definition with_slash :: "string \<Rightarrow> string" where
  "with_slash urlBase = (if HasSuffix urlBase ''/'' then urlBase else urlBase @ ''/'')"

text \<open>
  The whole command: the file system it leaves and its outcome, or \<open>None\<close> when the
  naming loop does not end.
\<close>

definition UpdateRepo ::
  "env \<Rightarrow> filesystem \<Rightarrow> string \<Rightarrow> string \<Rightarrow> string \<Rightarrow> string \<Rightarrow> string \<Rightarrow> int \<Rightarrow>
   (filesystem \<times> outcome) option" where
  "UpdateRepo e fs repoDir filesDir urlBase newVersionDir versionName versionId =
     (case prepare e fs repoDir filesDir newVersionDir of
        Inl err \<Rightarrow> Some (fs, err)
      | Inr (indexData, newVersionMD5s, fileStorageMD5s) \<Rightarrow>
          (case diff_files e fs filesDir newVersionMD5s (with_dummy fileStorageMD5s) [] [] of
             None \<Rightarrow> None
           | Some Panics \<Rightarrow> Some (fs, Panicked)
           | Some (Returns (fileStorageMap, addToStorage)) \<Rightarrow>
               (case copy_files e fs filesDir newVersionDir addToStorage fileStorageMap of
                  (fs1, Inl err) \<Rightarrow> Some (fs1, err)
                | (fs1, Inr fileStorageMap') \<Rightarrow>
                    Some (write_version_and_index e fs1 repoDir
                            (build_version versionId versionName (with_slash urlBase)
                               fileStorageMap')
                            (indexData\<lparr>Versions :=
                               Versions indexData @
                                 [\<lparr>vsId = versionId, vsName = versionName\<rparr>]\<rparr>)))))"

section \<open>A concrete environment\<close>

text \<open>
  Stand-ins for what lies outside the repository's code, used where a statement is
  evaluated on concrete data: a JSON rendering of the two records with Go's field names
  (strings are written without escapes), a content hash given by a table, a scan that
  looks for a fixed list of relative paths, and an operating system without faults.
\<close>

fun json_items :: "('a \<Rightarrow> string) \<Rightarrow> 'a list \<Rightarrow> string" where
  "json_items f [] = []"
| "json_items f [x] = f x"
| "json_items f (x # y # ys) = f x @ '','' @ json_items f (y # ys)"

definition json_string :: "string \<Rightarrow> string" where
  \<open>json_string s = ''"'' @ s @ ''"''\<close>

definition json_channel :: "Channel \<Rightarrow> string" where
  \<open>json_channel c =
     ''{"Id":'' @ json_string (Id c) @ '',"Name":'' @ json_string (Name c) @
     '',"CurrentVersion":'' @ itoa (CurrentVersion c) @ ''}''\<close>

definition json_summary :: "VersionSummary \<Rightarrow> string" where
  \<open>json_summary v =
     ''{"Id":'' @ itoa (vsId v) @ '',"Name":'' @ json_string (vsName v) @ ''}''\<close>

definition json_index :: "Index \<Rightarrow> string" where
  \<open>json_index i =
     ''{"Channels":['' @ json_items json_channel (Channels i) @
     ''],"Versions":['' @ json_items json_summary (Versions i) @ '']}''\<close>

definition json_source :: "FileSource \<Rightarrow> string" where
  \<open>json_source src =
     ''{"SourceType":'' @ json_string (SourceType src) @ '',"Url":'' @ json_string (Url src) @ ''}''\<close>

definition json_file_info :: "FileInfo \<Rightarrow> string" where
  \<open>json_file_info f =
     ''{"Path":'' @ json_string (fiPath f) @
     '',"Sources":['' @ json_items json_source (Sources f) @
     ''],"MD5":'' @ json_string (fiMD5 f) @ ''}''\<close>

definition json_version :: "Version \<Rightarrow> string" where
  \<open>json_version v =
     ''{"Id":'' @ itoa (verId v) @ '',"Name":'' @ json_string (verName v) @
     '',"Files":['' @ json_items json_file_info (Files v) @ '']}''\<close>

definition empty_index :: Index where
  "empty_index = \<lparr>Channels = [], Versions = []\<rparr>"

definition stable_index :: Index where
  "stable_index =
     \<lparr>Channels = [\<lparr>Id = ''stable'', Name = ''Stable'', CurrentVersion = 1\<rparr>,
                  \<lparr>Id = ''beta'', Name = ''Beta'', CurrentVersion = 2\<rparr>],
      Versions = [\<lparr>vsId = 1, vsName = ''1.0''\<rparr>, \<lparr>vsId = 2, vsName = ''2.0''\<rparr>]\<rparr>"

text \<open>The index and the version file after version 1, named \<open>1.0\<close>, of the tree \<open>new\<close> below.\<close>

definition published_index :: Index where
  "published_index = \<lparr>Channels = [], Versions = [\<lparr>vsId = 1, vsName = ''1.0''\<rparr>]\<rparr>"

definition published_version :: Version where
  "published_version =
     \<lparr>verId = 1, verName = ''1.0'',
      Files =
        [\<lparr>fiPath = ''a.txt'',
          Sources = [\<lparr>SourceType = ''http'', Url = ''http://x/abcd-a.txt''\<rparr>],
          fiMD5 = ''abcd5e0f1a2b3c4d5e6f708192a3b4c5''\<rparr>,
         \<lparr>fiPath = ''b.txt'',
          Sources = [\<lparr>SourceType = ''http'', Url = ''http://x/1234-b.txt''\<rparr>],
          fiMD5 = ''1234aa55aa55aa55aa55aa55aa55aa55''\<rparr>]\<rparr>"

text \<open>
  An index file written with indentation, as \<open>json.MarshalIndent\<close> with four spaces
  renders the index of one channel and one version.
\<close>

definition one_channel_index :: Index where
  "one_channel_index =
     \<lparr>Channels = [\<lparr>Id = ''stable'', Name = ''Stable'', CurrentVersion = 1\<rparr>],
      Versions = [\<lparr>vsId = 1, vsName = ''1.0''\<rparr>]\<rparr>"

definition unlines :: "string list \<Rightarrow> string" where
  "unlines ls = concat (map (\<lambda>l. l @ [CHR 0x0A]) ls)"

definition indented_index_text :: string where
  \<open>indented_index_text =
     unlines
       [''{'',
        ''    "Channels": ['',
        ''        {'',
        ''            "Id": "stable",'',
        ''            "Name": "Stable",'',
        ''            "CurrentVersion": 1'',
        ''        }'',
        ''    ],'',
        ''    "Versions": ['',
        ''        {'',
        ''            "Id": 1,'',
        ''            "Name": "1.0"'',
        ''        }'',
        ''    ]'',
        ''}'']\<close>

text \<open>Parsing by table: the indented text, and the rendering of each listed index.\<close>

definition demo_Unmarshal :: "string \<Rightarrow> Index option" where
  "demo_Unmarshal fileData =
     (if fileData = indented_index_text then Some one_channel_index
      else find (\<lambda>i. json_index i = fileData) [empty_index, stable_index, published_index])"

definition demo_md5 :: "string \<Rightarrow> string" where
  "demo_md5 bytes =
     (if bytes = ''alpha'' then ''abcd5e0f1a2b3c4d5e6f708192a3b4c5''
      else if bytes = ''beta'' then ''abcd99887766554433221100ffeeddcc''
      else if bytes = ''gamma'' then ''1234aa55aa55aa55aa55aa55aa55aa55''
      else ''d41d8cd98f00b204e9800998ecf8427e'')"

definition demo_names :: "string list" where
  "demo_names =
     [''1234-b.txt'', ''a.txt'', ''abcd-a.txt'', ''abcd-b.txt'', ''abcd-x.txt'',
      ''abcd5-x.txt'', ''b.txt'', ''p/x.txt'', ''q/x.txt'']"

text \<open>
  Modelled from the spec: \<open>md5util.RecursiveMD5Calc\<close> is not among the sources; the spec
  describes it as computing the content hash of every file under a directory,
  recursively. The stand-in looks under the directory for each of a fixed list of
  relative paths, in the order of the list, and fails on a path that is not a directory.
\<close>

definition demo_scan :: "filesystem \<Rightarrow> string \<Rightarrow> FileMD5Data list" where
  "demo_scan fs dir =
     concat (map (\<lambda>n. case fs (path_join dir n) of
                         Some (File bytes) \<Rightarrow> [\<lparr>Path = n, MD5 = demo_md5 bytes\<rparr>]
                       | Some Dir \<Rightarrow> []
                       | None \<Rightarrow> [])
               demo_names)"

definition demo_RecursiveMD5Calc :: "filesystem \<Rightarrow> string \<Rightarrow> FileMD5Data list option" where
  "demo_RecursiveMD5Calc fs dir =
     (case fs dir of
        Some Dir \<Rightarrow> Some (demo_scan fs dir)
      | Some (File bytes) \<Rightarrow> None
      | None \<Rightarrow> None)"

definition demo_env :: env where
  "demo_env =
     \<lparr>fault = (\<lambda>call p. None),
      RecursiveMD5Calc = demo_RecursiveMD5Calc,
      Unmarshal = demo_Unmarshal,
      MarshalIndex = json_index,
      MarshalVersion = json_version\<rparr>"

text \<open>
  A repository with an empty index, an empty storage directory, and four source trees:
  \<open>new\<close> (two files of different content), \<open>dup\<close> (two files of equal content),
  \<open>col\<close> (two files of different content, equal base name and equal first four hash
  characters) and \<open>one\<close> (the first file of \<open>new\<close> alone).
\<close>

definition demo_fs :: filesystem where
  "demo_fs =
     [''repo'' \<mapsto> Dir,
      ''repo/index.json'' \<mapsto> File (json_index empty_index),
      ''store'' \<mapsto> Dir,
      ''new'' \<mapsto> Dir,
      ''new/a.txt'' \<mapsto> File ''alpha'',
      ''new/b.txt'' \<mapsto> File ''gamma'',
      ''dup'' \<mapsto> Dir,
      ''dup/a.txt'' \<mapsto> File ''alpha'',
      ''dup/b.txt'' \<mapsto> File ''alpha'',
      ''col'' \<mapsto> Dir,
      ''col/p'' \<mapsto> Dir,
      ''col/p/x.txt'' \<mapsto> File ''alpha'',
      ''col/q'' \<mapsto> Dir,
      ''col/q/x.txt'' \<mapsto> File ''beta'',
      ''one'' \<mapsto> Dir,
      ''one/a.txt'' \<mapsto> File ''alpha'']"

text \<open>The repository after version 1 of \<open>new\<close> has been published into it.\<close>

definition published_fs :: filesystem where
  "published_fs =
     demo_fs(''store/abcd-a.txt'' \<mapsto> File ''alpha'',
             ''store/1234-b.txt'' \<mapsto> File ''gamma'',
             ''repo/1.json'' \<mapsto> File (json_version published_version),
             ''repo/index.json'' \<mapsto> File (json_index published_index))"

text \<open>The repository after an empty tree has been published into it as version 1.\<close>

definition bare_version :: Version where
  "bare_version = \<lparr>verId = 1, verName = ''1.0'', Files = []\<rparr>"

definition bare_fs :: filesystem where
  "bare_fs =
     demo_fs(''repo/1.json'' \<mapsto> File (json_version bare_version),
             ''repo/index.json'' \<mapsto> File (json_index published_index))"



text \<open>An operating system that refuses every open for writing of an existing file.\<close>

definition readonly_env :: env where
  "readonly_env =
     demo_env\<lparr>fault := (\<lambda>call p. case call of
                                      SysOpenWrite \<Rightarrow> Some ErrPermission
                                    | SysStat \<Rightarrow> None
                                    | SysOpenRead \<Rightarrow> None
                                    | SysCreateExcl \<Rightarrow> None)\<rparr>"

text \<open>
  An operating system that answers \<open>os.Stat\<close> with "permission denied" for every path
  but the repository and the storage directory themselves.
\<close>

definition denied_env :: env where
  "denied_env =
     demo_env\<lparr>fault := (\<lambda>call p. case call of
                                      SysStat \<Rightarrow> if p = ''repo'' \<or> p = ''store'' then None
                                                 else Some ErrPermission
                                    | SysOpenRead \<Rightarrow> None
                                    | SysCreateExcl \<Rightarrow> None
                                    | SysOpenWrite \<Rightarrow> None)\<rparr>"

text \<open>The same repository with the indented index file.\<close>

definition indented_fs :: filesystem where
  "indented_fs = demo_fs(''repo/index.json'' \<mapsto> File indented_index_text)"

text \<open>The same repository with two channels and two versions in its index.\<close>

definition stable_fs :: filesystem where
  "stable_fs = demo_fs(''repo/index.json'' \<mapsto> File (json_index stable_index))"

section \<open>Properties of setchan\<close>


lemma set_existing_absent:
  "chanId \<notin> Id ` set chans \<Longrightarrow> set_existing chans chanId v = (chans, False)"
  by (induction chans) auto

lemma set_existing_present:
  "chanId \<in> Id ` set chans \<Longrightarrow>
   \<exists>pre c post. chans = pre @ c # post \<and> chanId \<notin> Id ` set pre \<and> Id c = chanId \<and>
     set_existing chans chanId v =
       (if v < 0 then pre @ post else pre @ c\<lparr>CurrentVersion := v\<rparr> # post, True)"
proof (induction chans)
  case Nil
  then show ?case by simp
next
  case (Cons a chans)
  show ?case
  proof (cases "Id a = chanId")
    case True
    then have "a # chans = [] @ a # chans \<and> chanId \<notin> Id ` set [] \<and> Id a = chanId \<and>
      set_existing (a # chans) chanId v =
       (if v < 0 then [] @ chans else [] @ a\<lparr>CurrentVersion := v\<rparr> # chans, True)"
      by simp
    then show ?thesis by blast
  next
    case False
    with Cons.prems have "chanId \<in> Id ` set chans" by auto
    from Cons.IH[OF this] obtain pre c post where
      h: "chans = pre @ c # post" "chanId \<notin> Id ` set pre" "Id c = chanId"
         "set_existing chans chanId v =
           (if v < 0 then pre @ post else pre @ c\<lparr>CurrentVersion := v\<rparr> # post, True)"
      by blast
    from h False have "a # chans = (a # pre) @ c # post \<and> chanId \<notin> Id ` set (a # pre) \<and> Id c = chanId \<and>
      set_existing (a # chans) chanId v =
       (if v < 0 then (a # pre) @ post else (a # pre) @ c\<lparr>CurrentVersion := v\<rparr> # post, True)"
      by auto
    then show ?thesis by blast
  qed
qed

lemma Write_created: "Write (fs(p \<mapsto> File old)) p bytes = fs(p \<mapsto> File (write_at_start old bytes))"
  by (simp add: Write_def)

lemma write_at_start_empty: "write_at_start [] bytes = bytes"
  by (simp add: write_at_start_def)

lemma ReadFile_Inr: "ReadFile e fs p = Inr bytes \<Longrightarrow> fs p = Some (File bytes)"
  by (auto simp: ReadFile_def split: option.splits node.splits)

lemma ReadFile_Inr_fault: "ReadFile e fs p = Inr bytes \<Longrightarrow> fault e SysOpenRead p = None"
  by (auto simp: ReadFile_def split: option.splits node.splits)

lemma SetChan_run:
  assumes "os_Stat e fs repoDir = Inr True"
    and "ReadFile e fs (index_file repoDir) = Inr fileData"
    and "Unmarshal e fileData = Some indexData"
    and "fault e SysOpenWrite (index_file repoDir) = None"
  shows "SetChan e fs repoDir chanId versionId =
           (fs(index_file repoDir \<mapsto>
                 File (MarshalIndex e (setchan_index indexData chanId versionId))),
            Success)"
  using assms ReadFile_Inr[OF assms(2)]
  by (simp add: SetChan_def check_dir_def read_index_def OpenFile_trunc_def
      Write_created write_at_start_empty)

lemma setchan_index_Versions: "Versions (setchan_index indexData chanId v) = Versions indexData"
  by (simp add: setchan_index_def split: prod.splits)

lemma setchan_index_absent:
  "chanId \<notin> Id ` set (Channels indexData) \<Longrightarrow>
   setchan_index indexData chanId v =
     indexData\<lparr>Channels := Channels indexData @ [\<lparr>Id = chanId, Name = chanId, CurrentVersion = v\<rparr>]\<rparr>"
  by (simp add: setchan_index_def set_existing_absent)

lemma setchan_index_present:
  assumes "chanId \<in> Id ` set (Channels indexData)"
  shows "\<exists>pre c post. Channels indexData = pre @ c # post \<and> chanId \<notin> Id ` set pre \<and> Id c = chanId \<and>
     Channels (setchan_index indexData chanId v) =
       (if v < 0 then pre @ post else pre @ c\<lparr>CurrentVersion := v\<rparr> # post)"
proof -
  from set_existing_present[OF assms, of v] obtain pre c post where
    h: "Channels indexData = pre @ c # post" "chanId \<notin> Id ` set pre" "Id c = chanId"
       "set_existing (Channels indexData) chanId v =
           (if v < 0 then pre @ post else pre @ c\<lparr>CurrentVersion := v\<rparr> # post, True)"
    by blast
  from h(4) have "Channels (setchan_index indexData chanId v) =
       (if v < 0 then pre @ post else pre @ c\<lparr>CurrentVersion := v\<rparr> # post)"
    by (simp add: setchan_index_def)
  with h(1,2,3) show ?thesis by blast
qed

text \<open>
  Claim C8. When the repository directory and its index can be read and the index file
  can be opened for writing, \<open>SetChan\<close> succeeds and leaves in the index file the
  rendering of \<open>setchan_index\<close> of the index it read. The version summaries are the
  same. With no channel of the given ID, a channel with that ID, that ID as name and the
  given version is appended. With such a channel and a version ID of at least 0, the
  first channel of that ID gets the version ID as its current version and nothing else
  changes. With such a channel and a negative version ID, the first channel of that ID
  is taken out of the list and the other channels stay in order; where the IDs of the
  index are distinct, no channel of that ID is left.
\<close>

theorem SetChan_semantics:
  assumes "os_Stat e fs repoDir = Inr True"
    and "ReadFile e fs (index_file repoDir) = Inr fileData"
    and "Unmarshal e fileData = Some indexData"
    and "fault e SysOpenWrite (index_file repoDir) = None"
  shows "SetChan e fs repoDir chanId versionId =
           (fs(index_file repoDir \<mapsto>
                 File (MarshalIndex e (setchan_index indexData chanId versionId))),
            Success) \<and>
         Versions (setchan_index indexData chanId versionId) = Versions indexData \<and>
         (chanId \<notin> Id ` set (Channels indexData) \<longrightarrow>
            Channels (setchan_index indexData chanId versionId) =
              Channels indexData @ [\<lparr>Id = chanId, Name = chanId, CurrentVersion = versionId\<rparr>]) \<and>
         (chanId \<in> Id ` set (Channels indexData) \<and> 0 \<le> versionId \<longrightarrow>
            (\<exists>pre c post.
               Channels indexData = pre @ c # post \<and> chanId \<notin> Id ` set pre \<and> Id c = chanId \<and>
               Channels (setchan_index indexData chanId versionId) =
                 pre @ \<lparr>Id = Id c, Name = Name c, CurrentVersion = versionId\<rparr> # post)) \<and>
         (chanId \<in> Id ` set (Channels indexData) \<and> versionId < 0 \<longrightarrow>
            (\<exists>pre c post.
               Channels indexData = pre @ c # post \<and> chanId \<notin> Id ` set pre \<and> Id c = chanId \<and>
               Channels (setchan_index indexData chanId versionId) = pre @ post \<and>
               (distinct (map Id (Channels indexData)) \<longrightarrow>
                  chanId \<notin> Id ` set (Channels (setchan_index indexData chanId versionId)))))"
proof (intro conjI impI)
  show "SetChan e fs repoDir chanId versionId =
           (fs(index_file repoDir \<mapsto>
                 File (MarshalIndex e (setchan_index indexData chanId versionId))),
            Success)"
    by (rule SetChan_run[OF assms])
  show "Versions (setchan_index indexData chanId versionId) = Versions indexData"
    by (rule setchan_index_Versions)
next
  assume "chanId \<notin> Id ` set (Channels indexData)"
  then show "Channels (setchan_index indexData chanId versionId) =
              Channels indexData @ [\<lparr>Id = chanId, Name = chanId, CurrentVersion = versionId\<rparr>]"
    by (simp add: setchan_index_absent)
next
  assume a: "chanId \<in> Id ` set (Channels indexData) \<and> 0 \<le> versionId"
  from setchan_index_present[of chanId indexData versionId] a
  obtain pre c post where
    h: "Channels indexData = pre @ c # post" "chanId \<notin> Id ` set pre" "Id c = chanId"
       "Channels (setchan_index indexData chanId versionId) = pre @ c\<lparr>CurrentVersion := versionId\<rparr> # post"
    by auto
  have "c\<lparr>CurrentVersion := versionId\<rparr> = \<lparr>Id = Id c, Name = Name c, CurrentVersion = versionId\<rparr>"
    by (cases c) simp
  with h show "\<exists>pre c post.
               Channels indexData = pre @ c # post \<and> chanId \<notin> Id ` set pre \<and> Id c = chanId \<and>
               Channels (setchan_index indexData chanId versionId) =
                 pre @ \<lparr>Id = Id c, Name = Name c, CurrentVersion = versionId\<rparr> # post"
    by metis
next
  assume a: "chanId \<in> Id ` set (Channels indexData) \<and> versionId < 0"
  from setchan_index_present[of chanId indexData versionId] a
  obtain pre c post where
    h: "Channels indexData = pre @ c # post" "chanId \<notin> Id ` set pre" "Id c = chanId"
       "Channels (setchan_index indexData chanId versionId) = pre @ post"
    by auto
  have "distinct (map Id (Channels indexData)) \<longrightarrow>
          chanId \<notin> Id ` set (Channels (setchan_index indexData chanId versionId))"
    using h by auto
  with h show "\<exists>pre c post.
               Channels indexData = pre @ c # post \<and> chanId \<notin> Id ` set pre \<and> Id c = chanId \<and>
               Channels (setchan_index indexData chanId versionId) = pre @ post \<and>
               (distinct (map Id (Channels indexData)) \<longrightarrow>
                  chanId \<notin> Id ` set (Channels (setchan_index indexData chanId versionId)))"
    by blast
qed

lemma stable_stat: "os_Stat demo_env stable_fs ''repo'' = Inr True"
  by (simp add: demo_env_def demo_fs_def stable_fs_def os_Stat_def)

lemma stable_read: "ReadFile demo_env stable_fs (index_file ''repo'') = Inr (json_index stable_index)"
  by (simp add: demo_env_def demo_fs_def stable_fs_def ReadFile_def index_file_def path_join_def)

lemma json_stable_neq: "json_index stable_index \<noteq> indented_index_text" "json_index empty_index \<noteq> json_index stable_index"
  by (simp_all add: json_index_def indented_index_text_def unlines_def stable_index_def empty_index_def)

lemma stable_unmarshal: "Unmarshal demo_env (json_index stable_index) = Some stable_index"
  by (simp add: demo_env_def demo_Unmarshal_def json_stable_neq)

lemma stable_fault: "fault demo_env SysOpenWrite (index_file ''repo'') = None"
  by (simp add: demo_env_def)

text \<open>The three cases of C8 on the two-channel repository.\<close>

theorem SetChan_semantics_witness:
  "SetChan demo_env stable_fs ''repo'' ''nightly'' 2 =
     (stable_fs(''repo/index.json'' \<mapsto> File (json_index
        \<lparr>Channels = [\<lparr>Id = ''stable'', Name = ''Stable'', CurrentVersion = 1\<rparr>,
                     \<lparr>Id = ''beta'', Name = ''Beta'', CurrentVersion = 2\<rparr>,
                     \<lparr>Id = ''nightly'', Name = ''nightly'', CurrentVersion = 2\<rparr>],
         Versions = [\<lparr>vsId = 1, vsName = ''1.0''\<rparr>, \<lparr>vsId = 2, vsName = ''2.0''\<rparr>]\<rparr>)), Success) \<and>
   SetChan demo_env stable_fs ''repo'' ''stable'' 2 =
     (stable_fs(''repo/index.json'' \<mapsto> File (json_index
        \<lparr>Channels = [\<lparr>Id = ''stable'', Name = ''Stable'', CurrentVersion = 2\<rparr>,
                     \<lparr>Id = ''beta'', Name = ''Beta'', CurrentVersion = 2\<rparr>],
         Versions = [\<lparr>vsId = 1, vsName = ''1.0''\<rparr>, \<lparr>vsId = 2, vsName = ''2.0''\<rparr>]\<rparr>)), Success) \<and>
   SetChan demo_env stable_fs ''repo'' ''stable'' (- 1) =
     (stable_fs(''repo/index.json'' \<mapsto> File (json_index
        \<lparr>Channels = [\<lparr>Id = ''beta'', Name = ''Beta'', CurrentVersion = 2\<rparr>],
         Versions = [\<lparr>vsId = 1, vsName = ''1.0''\<rparr>, \<lparr>vsId = 2, vsName = ''2.0''\<rparr>]\<rparr>)), Success)"
proof -
  note th = SetChan_semantics[OF stable_stat stable_read stable_unmarshal stable_fault]
  have a: "setchan_index stable_index ''nightly'' 2 =
        \<lparr>Channels = [\<lparr>Id = ''stable'', Name = ''Stable'', CurrentVersion = 1\<rparr>,
                     \<lparr>Id = ''beta'', Name = ''Beta'', CurrentVersion = 2\<rparr>,
                     \<lparr>Id = ''nightly'', Name = ''nightly'', CurrentVersion = 2\<rparr>],
         Versions = [\<lparr>vsId = 1, vsName = ''1.0''\<rparr>, \<lparr>vsId = 2, vsName = ''2.0''\<rparr>]\<rparr>"
    by (simp add: setchan_index_def stable_index_def)
  have b: "setchan_index stable_index ''stable'' 2 =
        \<lparr>Channels = [\<lparr>Id = ''stable'', Name = ''Stable'', CurrentVersion = 2\<rparr>,
                     \<lparr>Id = ''beta'', Name = ''Beta'', CurrentVersion = 2\<rparr>],
         Versions = [\<lparr>vsId = 1, vsName = ''1.0''\<rparr>, \<lparr>vsId = 2, vsName = ''2.0''\<rparr>]\<rparr>"
    by (simp add: setchan_index_def stable_index_def)
  have c: "setchan_index stable_index ''stable'' (- 1) =
        \<lparr>Channels = [\<lparr>Id = ''beta'', Name = ''Beta'', CurrentVersion = 2\<rparr>],
         Versions = [\<lparr>vsId = 1, vsName = ''1.0''\<rparr>, \<lparr>vsId = 2, vsName = ''2.0''\<rparr>]\<rparr>"
    by (simp add: setchan_index_def stable_index_def)
  have i: "index_file ''repo'' = ''repo/index.json''" by (simp add: index_file_def path_join_def)
  have m: "MarshalIndex demo_env = json_index" by (simp add: demo_env_def)
  from th[of "''nightly''" 2] th[of "''stable''" 2] th[of "''stable''" "- 1"]
  show ?thesis unfolding a b c i m by blast
qed

text \<open>
  Claim C10. With no channel of the given ID in the index and a negative version ID,
  \<open>SetChan\<close> (where it can read the repository and open the index file for writing)
  succeeds and writes an index whose channel list is the old one followed by a new
  channel with that ID, that ID as name and the negative value as current version; the
  channel list is therefore not the one it read.
\<close>

theorem SetChan_negative_creates:
  assumes "os_Stat e fs repoDir = Inr True"
    and "ReadFile e fs (index_file repoDir) = Inr fileData"
    and "Unmarshal e fileData = Some indexData"
    and "fault e SysOpenWrite (index_file repoDir) = None"
    and "chanId \<notin> Id ` set (Channels indexData)"
    and "versionId < 0"
  shows "SetChan e fs repoDir chanId versionId =
           (fs(index_file repoDir \<mapsto>
                 File (MarshalIndex e
                   (indexData\<lparr>Channels := Channels indexData @
                      [\<lparr>Id = chanId, Name = chanId, CurrentVersion = versionId\<rparr>]\<rparr>))),
            Success) \<and>
         Channels (setchan_index indexData chanId versionId) =
           Channels indexData @ [\<lparr>Id = chanId, Name = chanId, CurrentVersion = versionId\<rparr>] \<and>
         Channels (setchan_index indexData chanId versionId) \<noteq> Channels indexData"
  using SetChan_run[OF assms(1-4), of chanId versionId] assms(5)
  by (simp add: setchan_index_absent)

theorem SetChan_negative_creates_witness:
  "SetChan demo_env stable_fs ''repo'' ''nightly'' (- 1) =
     (stable_fs(''repo/index.json'' \<mapsto> File (json_index
        \<lparr>Channels = [\<lparr>Id = ''stable'', Name = ''Stable'', CurrentVersion = 1\<rparr>,
                     \<lparr>Id = ''beta'', Name = ''Beta'', CurrentVersion = 2\<rparr>,
                     \<lparr>Id = ''nightly'', Name = ''nightly'', CurrentVersion = - 1\<rparr>],
         Versions = [\<lparr>vsId = 1, vsName = ''1.0''\<rparr>, \<lparr>vsId = 2, vsName = ''2.0''\<rparr>]\<rparr>)), Success)"
proof -
  have absent: "''nightly'' \<notin> Id ` set (Channels stable_index)"
    by (simp add: stable_index_def)
  have neg: "(- 1 :: int) < 0" by simp
  have i: "index_file ''repo'' = ''repo/index.json''" by (simp add: index_file_def path_join_def)
  have m: "MarshalIndex demo_env = json_index" by (simp add: demo_env_def)
  from SetChan_negative_creates[OF stable_stat stable_read stable_unmarshal stable_fault absent neg]
  show ?thesis unfolding i m by (simp add: stable_index_def)
qed

section \<open>Properties of mkchan\<close>

lemma list_ex_Id: "list_ex (\<lambda>c. Id c = chanId) chans \<longleftrightarrow> chanId \<in> Id ` set chans"
  by (auto simp: list_ex_iff)

lemma OpenFile_rdwr_File:
  "fault e SysOpenWrite p = None \<Longrightarrow> fs p = Some (File bytes) \<Longrightarrow> OpenFile_rdwr e fs p = Inr fs"
  by (simp add: OpenFile_rdwr_def)

lemma Write_File:
  "fs p = Some (File old) \<Longrightarrow> Write fs p bytes = fs(p \<mapsto> File (write_at_start old bytes))"
  by (simp add: Write_def)

text \<open>
  Claim C9, as the code has it. Where the repository and its index can be read:
  with a channel of the given ID in the index, \<open>CreateChan\<close> fails with exit code 42
  and the file system is the one it started from; with none, and an index file that can
  be opened for writing, it succeeds and the index file then starts with the rendering
  of the index with one more channel, whose ID and name are the given ID and whose
  current version is 0, the value Go gives a field the literal does not set.
\<close>

theorem CreateChan_semantics:
  assumes "os_Stat e fs repoDir = Inr True"
    and "ReadFile e fs (index_file repoDir) = Inr fileData"
    and "Unmarshal e fileData = Some indexData"
  shows "(chanId \<in> Id ` set (Channels indexData) \<longrightarrow>
            CreateChan e fs repoDir chanId = (fs, Failed ChannelExistsError 42)) \<and>
         (chanId \<notin> Id ` set (Channels indexData) \<and>
          fault e SysOpenWrite (index_file repoDir) = None \<longrightarrow>
            (\<exists>rest. CreateChan e fs repoDir chanId =
              (fs(index_file repoDir \<mapsto>
                    File (MarshalIndex e
                            (indexData\<lparr>Channels := Channels indexData @
                               [\<lparr>Id = chanId, Name = chanId, CurrentVersion = 0\<rparr>]\<rparr>) @ rest)),
               Success)))"
  using assms ReadFile_Inr[OF assms(2)]
  by (auto simp: CreateChan_def check_dir_def read_index_def createchan_index_def list_ex_Id
      OpenFile_rdwr_File Write_File write_at_start_def)

lemma demo_stat: "os_Stat demo_env demo_fs ''repo'' = Inr True"
  by (simp add: demo_env_def demo_fs_def os_Stat_def)

lemma demo_read: "ReadFile demo_env demo_fs (index_file ''repo'') = Inr (json_index empty_index)"
  by (simp add: demo_env_def demo_fs_def ReadFile_def index_file_def path_join_def)

lemma json_empty_neq: "json_index empty_index \<noteq> indented_index_text"
  by (simp add: json_index_def indented_index_text_def unlines_def empty_index_def)

lemma demo_unmarshal: "Unmarshal demo_env (json_index empty_index) = Some empty_index"
  by (simp add: demo_env_def demo_Unmarshal_def json_empty_neq)

text \<open>The two cases of C9: a channel that exists, and a new one on the empty index.\<close>

theorem CreateChan_semantics_witness:
  "CreateChan demo_env stable_fs ''repo'' ''beta'' = (stable_fs, Failed ChannelExistsError 42) \<and>
   (\<exists>rest. CreateChan demo_env demo_fs ''repo'' ''stable'' =
     (demo_fs(''repo/index.json'' \<mapsto> File (json_index
        \<lparr>Channels = [\<lparr>Id = ''stable'', Name = ''stable'', CurrentVersion = 0\<rparr>], Versions = []\<rparr> @ rest)),
      Success))"
proof -
  have i: "index_file ''repo'' = ''repo/index.json''" by (simp add: index_file_def path_join_def)
  have m: "MarshalIndex demo_env = json_index" by (simp add: demo_env_def)
  have present: "''beta'' \<in> Id ` set (Channels stable_index)" by (simp add: stable_index_def)
  have absent: "''stable'' \<notin> Id ` set (Channels empty_index)" by (simp add: empty_index_def)
  from CreateChan_semantics[OF stable_stat stable_read stable_unmarshal, of "''beta''"] present
  have a: "CreateChan demo_env stable_fs ''repo'' ''beta'' = (stable_fs, Failed ChannelExistsError 42)"
    by blast
  from CreateChan_semantics[OF demo_stat demo_read demo_unmarshal, of "''stable''"] absent stable_fault
  have "\<exists>rest. CreateChan demo_env demo_fs ''repo'' ''stable'' =
     (demo_fs(index_file ''repo'' \<mapsto> File (MarshalIndex demo_env (empty_index\<lparr>Channels := Channels empty_index @
            [\<lparr>Id = ''stable'', Name = ''stable'', CurrentVersion = 0\<rparr>]\<rparr>) @ rest)), Success)"
    by blast
  then have b: "\<exists>rest. CreateChan demo_env demo_fs ''repo'' ''stable'' =
     (demo_fs(''repo/index.json'' \<mapsto> File (json_index
        \<lparr>Channels = [\<lparr>Id = ''stable'', Name = ''stable'', CurrentVersion = 0\<rparr>], Versions = []\<rparr> @ rest)),
      Success)"
    unfolding i m by (simp add: empty_index_def)
  from a b show ?thesis by blast
qed

text \<open>
  The claim as stated fails: the channel \<open>CreateChan\<close> appends to the empty index has
  current version 0, which is not negative, and a \<open>Channel\<close> always has the field.
\<close>

theorem CreateChan_version_counterexample:
  "createchan_index empty_index ''stable'' =
     Inr \<lparr>Channels = [\<lparr>Id = ''stable'', Name = ''stable'', CurrentVersion = 0\<rparr>], Versions = []\<rparr> \<and>
   \<not> CurrentVersion \<lparr>Id = ''stable'', Name = ''stable'', CurrentVersion = 0\<rparr> < 0"
  by (simp add: createchan_index_def empty_index_def)

section \<open>Properties of update\<close>

subsection \<open>What the writes of update can change\<close>

lemma OpenFile_excl_Inr:
  "OpenFile_excl e fs p = Inr fs1 \<Longrightarrow> fs p = None \<and> fs1 = fs(p \<mapsto> File [])"
  by (auto simp: OpenFile_excl_def split: option.splits)

lemma OpenFile_excl_exists:
  "fs p = Some n \<Longrightarrow> \<exists>err. OpenFile_excl e fs p = Inl err"
  by (auto simp: OpenFile_excl_def split: option.splits)

lemma OpenFile_excl_exists_code:
  "fs p = Some n \<Longrightarrow> fault e SysCreateExcl p = None \<Longrightarrow> OpenFile_excl e fs p = Inl ErrExist"
  by (auto simp: OpenFile_excl_def split: option.splits)


lemma create_and_write:
  assumes "OpenFile_excl e fs p = Inr fs1"
  shows "fs p = None" and "Write fs1 p bytes = fs(p \<mapsto> File bytes)"
  using OpenFile_excl_Inr[OF assms] by (simp_all add: Write_def write_at_start_def)

lemma map_le_new: "fs p = None \<Longrightarrow> fs \<subseteq>\<^sub>m fs(p \<mapsto> n)"
  by (auto simp: map_le_def)

lemma copy_files_map_le:
  "copy_files e fs filesDir newVersionDir addToStorage fileStorageMap = (fs1, r) \<Longrightarrow> fs \<subseteq>\<^sub>m fs1"
proof (induction addToStorage arbitrary: fs fileStorageMap)
  case Nil
  then show ?case by simp
next
  case (Cons mapping rest)
  let ?out = "path_join filesDir (FileStoragePath mapping)"
  show ?case
  proof (cases "OpenFile_excl e fs ?out")
    case (Inl err)
    with Cons.prems show ?thesis by simp
  next
    case (Inr fsa)
    note cw = create_and_write[OF Inr]
    have le: "fs \<subseteq>\<^sub>m fsa" using OpenFile_excl_Inr[OF Inr] by (simp add: map_le_new)
    show ?thesis
    proof (cases "os_Open e fsa (path_join newVersionDir (InstallPath mapping))")
      case (Inl err)
      with Cons.prems Inr le show ?thesis by simp
    next
      case (Inr bytes)
      with Cons.prems \<open>OpenFile_excl e fs ?out = Inr fsa\<close>
      have "copy_files e (fs(?out \<mapsto> File bytes)) filesDir newVersionDir rest
              (fileStorageMap @ [mapping]) = (fs1, r)"
        by (simp add: cw(2))
      from Cons.IH[OF this] have "fs(?out \<mapsto> File bytes) \<subseteq>\<^sub>m fs1" .
      moreover have "fs \<subseteq>\<^sub>m fs(?out \<mapsto> File bytes)" using cw(1) by (rule map_le_new)
      ultimately show ?thesis by (rule map_le_trans[rotated])
    qed
  qed
qed

lemma copy_files_outside:
  "copy_files e fs filesDir newVersionDir addToStorage fileStorageMap = (fs1, r) \<Longrightarrow>
   p \<notin> (\<lambda>m. path_join filesDir (FileStoragePath m)) ` set addToStorage \<Longrightarrow> fs1 p = fs p"
proof (induction addToStorage arbitrary: fs fileStorageMap)
  case Nil
  then show ?case by simp
next
  case (Cons mapping rest)
  let ?out = "path_join filesDir (FileStoragePath mapping)"
  from Cons.prems(2) have ne: "p \<noteq> ?out"
    and out: "p \<notin> (\<lambda>m. path_join filesDir (FileStoragePath m)) ` set rest" by auto
  show ?case
  proof (cases "OpenFile_excl e fs ?out")
    case (Inl err)
    with Cons.prems show ?thesis by simp
  next
    case (Inr fsa)
    note cw = create_and_write[OF Inr]
    have fsa: "fsa = fs(?out \<mapsto> File [])" using OpenFile_excl_Inr[OF Inr] by simp
    show ?thesis
    proof (cases "os_Open e fsa (path_join newVersionDir (InstallPath mapping))")
      case (Inl err)
      with Cons.prems(1) Inr fsa ne show ?thesis by auto
    next
      case (Inr bytes)
      with Cons.prems(1) \<open>OpenFile_excl e fs ?out = Inr fsa\<close>
      have "copy_files e (fs(?out \<mapsto> File bytes)) filesDir newVersionDir rest
              (fileStorageMap @ [mapping]) = (fs1, r)"
        by (simp add: cw(2))
      from Cons.IH[OF this out] ne show ?thesis by simp
    qed
  qed
qed


lemma copy_files_Inl:
  "copy_files e fs filesDir newVersionDir addToStorage fileStorageMap = (fs1, Inl out) \<Longrightarrow>
   out = Failed CreateFileError 42 \<or> out = Failed ReadFileError 43"
proof (induction addToStorage arbitrary: fs fileStorageMap)
  case Nil
  then show ?case by simp
next
  case (Cons mapping rest)
  then show ?case
    by (auto split: sum.splits)
qed

lemma write_version_and_index_cases:
  assumes "write_version_and_index e fs repoDir versionData indexData = (fs', out)"
  shows "(\<exists>c. out = Failed VersionFileError c \<and> fs' = fs) \<or>
         (\<exists>c. out = Failed IndexWriteError c \<and> fs (version_file repoDir (verId versionData)) = None \<and>
              fs' = fs(version_file repoDir (verId versionData) \<mapsto> File (MarshalVersion e versionData))) \<or>
         out = Success"
proof (cases "OpenFile_excl e fs (version_file repoDir (verId versionData))")
  case (Inl err)
  with assms show ?thesis by (auto simp: write_version_and_index_def)
next
  case (Inr fsa)
  note cw = create_and_write[OF Inr]
  from assms Inr show ?thesis
    by (auto simp: write_version_and_index_def cw Let_def split: sum.splits)
qed

lemma write_version_and_index_exists:
  assumes "fs (version_file repoDir (verId versionData)) = Some n"
  shows "\<exists>c. write_version_and_index e fs repoDir versionData indexData = (fs, Failed VersionFileError c)"
  using assms
  by (auto simp: write_version_and_index_def OpenFile_excl_def split: option.splits)

lemma write_version_and_index_exists_44:
  assumes "fs (version_file repoDir (verId versionData)) = Some n"
    and "fault e SysCreateExcl (version_file repoDir (verId versionData)) = None"
  shows "write_version_and_index e fs repoDir versionData indexData = (fs, Failed VersionFileError 44)"
  using assms
  by (auto simp: write_version_and_index_def OpenFile_excl_def version_write_code_def
      split: option.splits)

lemma verId_build_version [simp]: "verId (build_version versionId versionName urlBase m) = versionId"
  by (simp add: build_version_def)

lemma prepare_Inl_not_Success: "prepare e fs repoDir filesDir newVersionDir = Inl out \<Longrightarrow> out \<noteq> Success"
  by (auto simp: prepare_def check_dir_def read_index_def
      split: outcome.splits sum.splits option.splits if_splits)

text \<open>The steps of \<open>UpdateRepo\<close>, read off a run that returned.\<close>

lemma UpdateRepo_cases:
  assumes "UpdateRepo e fs repoDir filesDir urlBase newVersionDir versionName versionId = Some (fs', out)"
  shows "(\<exists>err. prepare e fs repoDir filesDir newVersionDir = Inl err \<and> fs' = fs \<and> out = err) \<or>
         (fs' = fs \<and> out = Panicked) \<or>
         (\<exists>indexData newVersionMD5s fileStorageMD5s fileStorageMap addToStorage fs1 r.
            prepare e fs repoDir filesDir newVersionDir = Inr (indexData, newVersionMD5s, fileStorageMD5s) \<and>
            diff_files e fs filesDir newVersionMD5s (with_dummy fileStorageMD5s) [] [] =
              Some (Returns (fileStorageMap, addToStorage)) \<and>
            copy_files e fs filesDir newVersionDir addToStorage fileStorageMap = (fs1, r) \<and>
            ((\<exists>err. r = Inl err \<and> fs' = fs1 \<and> out = err) \<or>
             (\<exists>fileStorageMap'. r = Inr fileStorageMap' \<and>
                write_version_and_index e fs1 repoDir
                  (build_version versionId versionName (with_slash urlBase) fileStorageMap')
                  (indexData\<lparr>Versions := Versions indexData @ [\<lparr>vsId = versionId, vsName = versionName\<rparr>]\<rparr>)
                = (fs', out))))"
  using assms
  by (auto simp: UpdateRepo_def split: sum.splits option.splits go.splits prod.splits)

lemma UpdateRepo_failure_map_le:
  assumes "UpdateRepo e fs repoDir filesDir urlBase newVersionDir versionName versionId = Some (fs', out)"
    and "out \<noteq> Success"
  shows "fs \<subseteq>\<^sub>m fs'"
proof -
  from UpdateRepo_cases[OF assms(1)] show ?thesis
  proof (elim disjE exE conjE)
    fix err assume "fs' = fs" then show ?thesis by simp
  next
    assume "fs' = fs" then show ?thesis by simp
  next
    fix indexData newVersionMD5s fileStorageMD5s fileStorageMap addToStorage fs1 r err
    assume "copy_files e fs filesDir newVersionDir addToStorage fileStorageMap = (fs1, r)" "fs' = fs1"
    then show ?thesis by (auto dest: copy_files_map_le)
  next
    fix indexData newVersionMD5s fileStorageMD5s fileStorageMap addToStorage fs1 r fileStorageMap'
    assume c: "copy_files e fs filesDir newVersionDir addToStorage fileStorageMap = (fs1, r)"
      and w: "write_version_and_index e fs1 repoDir
                  (build_version versionId versionName (with_slash urlBase) fileStorageMap')
                  (indexData\<lparr>Versions := Versions indexData @ [\<lparr>vsId = versionId, vsName = versionName\<rparr>]\<rparr>)
                = (fs', out)"
    from copy_files_map_le[OF c] have le: "fs \<subseteq>\<^sub>m fs1" .
    from write_version_and_index_cases[OF w] assms(2) have "fs1 \<subseteq>\<^sub>m fs'"
      by (auto simp: map_le_new)
    with le show ?thesis by (rule map_le_trans)
  qed
qed

subsection \<open>The commands on the concrete repository\<close>

lemma demo_env_sel:
  "fault demo_env = (\<lambda>call p. None)"
  "RecursiveMD5Calc demo_env = demo_RecursiveMD5Calc"
  "Unmarshal demo_env = demo_Unmarshal"
  "MarshalIndex demo_env = json_index"
  "MarshalVersion demo_env = json_version"
  by (simp_all add: demo_env_def)

lemmas os_defs = os_Stat_def ReadFile_def os_Open_def OpenFile_excl_def OpenFile_rdwr_def
  Write_def write_at_start_def check_dir_def read_index_def stat_not_missing_def

lemmas path_defs = path_join_def index_file_def version_file_def Base_def itoa_def
  show_nat.simps storage_name_def

lemmas json_defs = json_index_def json_version_def json_channel_def json_summary_def
  json_source_def json_file_info_def json_string_def

lemmas scan_defs = demo_RecursiveMD5Calc_def demo_scan_def demo_names_def demo_md5_def
  demo_Unmarshal_def empty_index_def stable_index_def published_index_def indented_index_text_def unlines_def

lemma demo_fs_apply:
  "demo_fs p =
     map_of
       [(''repo'', Dir), (''repo/index.json'', File (json_index empty_index)), (''store'', Dir),
        (''new'', Dir), (''new/a.txt'', File ''alpha''), (''new/b.txt'', File ''gamma''),
        (''dup'', Dir), (''dup/a.txt'', File ''alpha''), (''dup/b.txt'', File ''alpha''),
        (''col'', Dir), (''col/p'', Dir), (''col/p/x.txt'', File ''alpha''), (''col/q'', Dir),
        (''col/q/x.txt'', File ''beta''), (''one'', Dir), (''one/a.txt'', File ''alpha'')] p"
  by (simp add: demo_fs_def)

lemma demo_prepare_new:
  "prepare demo_env demo_fs ''repo'' ''store'' ''new'' =
     Inr (empty_index,
          [\<lparr>Path = ''a.txt'', MD5 = ''abcd5e0f1a2b3c4d5e6f708192a3b4c5''\<rparr>,
           \<lparr>Path = ''b.txt'', MD5 = ''1234aa55aa55aa55aa55aa55aa55aa55''\<rparr>],
          [])"
  by (simp add: prepare_def demo_env_sel os_defs path_defs scan_defs json_defs demo_fs_apply)

lemma demo_diff_new:
  "diff_files demo_env demo_fs ''store''
          [\<lparr>Path = ''a.txt'', MD5 = ''abcd5e0f1a2b3c4d5e6f708192a3b4c5''\<rparr>,
           \<lparr>Path = ''b.txt'', MD5 = ''1234aa55aa55aa55aa55aa55aa55aa55''\<rparr>]
          (with_dummy []) [] [] =
    Some (Returns ([],
      [\<lparr>FileStoragePath = ''abcd-a.txt'', InstallPath = ''a.txt'', fsdMD5 = ''abcd5e0f1a2b3c4d5e6f708192a3b4c5''\<rparr>,
       \<lparr>FileStoragePath = ''1234-b.txt'', InstallPath = ''b.txt'', fsdMD5 = ''1234aa55aa55aa55aa55aa55aa55aa55''\<rparr>]))"
  by (simp add: with_dummy_def new_storage_name_def find_storage_name.simps
      demo_env_sel os_defs path_defs demo_fs_apply)

lemma UpdateRepo_prepare_fails:
  "prepare e fs repoDir filesDir newVersionDir = Inl err \<Longrightarrow>
   UpdateRepo e fs repoDir filesDir urlBase newVersionDir versionName versionId = Some (fs, err)"
  by (simp add: UpdateRepo_def)

lemma UpdateRepo_copy_fails:
  "prepare e fs repoDir filesDir newVersionDir = Inr (indexData, newVersionMD5s, fileStorageMD5s) \<Longrightarrow>
   diff_files e fs filesDir newVersionMD5s (with_dummy fileStorageMD5s) [] [] =
     Some (Returns (fileStorageMap, addToStorage)) \<Longrightarrow>
   copy_files e fs filesDir newVersionDir addToStorage fileStorageMap = (fs1, Inl err) \<Longrightarrow>
   UpdateRepo e fs repoDir filesDir urlBase newVersionDir versionName versionId = Some (fs1, err)"
  by (simp add: UpdateRepo_def)

lemma UpdateRepo_writes:
  "prepare e fs repoDir filesDir newVersionDir = Inr (indexData, newVersionMD5s, fileStorageMD5s) \<Longrightarrow>
   diff_files e fs filesDir newVersionMD5s (with_dummy fileStorageMD5s) [] [] =
     Some (Returns (fileStorageMap, addToStorage)) \<Longrightarrow>
   copy_files e fs filesDir newVersionDir addToStorage fileStorageMap = (fs1, Inr fileStorageMap') \<Longrightarrow>
   UpdateRepo e fs repoDir filesDir urlBase newVersionDir versionName versionId =
     Some (write_version_and_index e fs1 repoDir
             (build_version versionId versionName (with_slash urlBase) fileStorageMap')
             (indexData\<lparr>Versions := Versions indexData @ [\<lparr>vsId = versionId, vsName = versionName\<rparr>]\<rparr>))"
  by (simp add: UpdateRepo_def)

lemma demo_copy_new:
  "copy_files demo_env demo_fs ''store'' ''new''
      [\<lparr>FileStoragePath = ''abcd-a.txt'', InstallPath = ''a.txt'', fsdMD5 = ''abcd5e0f1a2b3c4d5e6f708192a3b4c5''\<rparr>,
       \<lparr>FileStoragePath = ''1234-b.txt'', InstallPath = ''b.txt'', fsdMD5 = ''1234aa55aa55aa55aa55aa55aa55aa55''\<rparr>]
      [] =
     (demo_fs(''store/abcd-a.txt'' \<mapsto> File ''alpha'', ''store/1234-b.txt'' \<mapsto> File ''gamma''),
      Inr [\<lparr>FileStoragePath = ''abcd-a.txt'', InstallPath = ''a.txt'', fsdMD5 = ''abcd5e0f1a2b3c4d5e6f708192a3b4c5''\<rparr>,
           \<lparr>FileStoragePath = ''1234-b.txt'', InstallPath = ''b.txt'', fsdMD5 = ''1234aa55aa55aa55aa55aa55aa55aa55''\<rparr>])"
  by (simp add: demo_env_sel os_defs path_defs demo_fs_apply)

lemma demo_write_new:
  "write_version_and_index demo_env
     (demo_fs(''store/abcd-a.txt'' \<mapsto> File ''alpha'', ''store/1234-b.txt'' \<mapsto> File ''gamma''))
     ''repo''
     (build_version 1 ''1.0'' (with_slash ''http://x'')
        [\<lparr>FileStoragePath = ''abcd-a.txt'', InstallPath = ''a.txt'', fsdMD5 = ''abcd5e0f1a2b3c4d5e6f708192a3b4c5''\<rparr>,
         \<lparr>FileStoragePath = ''1234-b.txt'', InstallPath = ''b.txt'', fsdMD5 = ''1234aa55aa55aa55aa55aa55aa55aa55''\<rparr>])
     (empty_index\<lparr>Versions := Versions empty_index @ [\<lparr>vsId = 1, vsName = ''1.0''\<rparr>]\<rparr>) =
   (published_fs, Success)"
proof -
  have v: "build_version 1 ''1.0'' (with_slash ''http://x'')
        [\<lparr>FileStoragePath = ''abcd-a.txt'', InstallPath = ''a.txt'', fsdMD5 = ''abcd5e0f1a2b3c4d5e6f708192a3b4c5''\<rparr>,
         \<lparr>FileStoragePath = ''1234-b.txt'', InstallPath = ''b.txt'', fsdMD5 = ''1234aa55aa55aa55aa55aa55aa55aa55''\<rparr>]
     = published_version"
    by (simp add: build_version_def file_info_def with_slash_def HasSuffix_def published_version_def)
  have i: "empty_index\<lparr>Versions := Versions empty_index @ [\<lparr>vsId = 1, vsName = ''1.0''\<rparr>]\<rparr> = published_index"
    by (simp add: empty_index_def published_index_def)
  have id1: "verId published_version = 1" by (simp add: published_version_def)
  have d: "drop (length (json_index published_index)) (json_index empty_index) = []"
    by (simp add: json_defs published_index_def empty_index_def)
  show ?thesis unfolding v i
    by (simp add: write_version_and_index_def id1 published_fs_def d
        demo_env_sel os_defs path_defs demo_fs_apply)
qed

lemma demo_publish_new:
  "UpdateRepo demo_env demo_fs ''repo'' ''store'' ''http://x'' ''new'' ''1.0'' 1 =
     Some (published_fs, Success)"
  using UpdateRepo_writes[OF demo_prepare_new demo_diff_new demo_copy_new, of "''http://x''" "''1.0''" 1]
  by (simp only: demo_write_new)

subsection \<open>The shape of storage names\<close>

lemma find_storage_name_shape:
  assumes "find_storage_name e fs filesDir md5 base prefixSize prefixNum storageName = Some y"
  shows "4 \<le> prefixSize \<longrightarrow>
         (\<exists>k num. storageName = storage_name md5 k num base \<and> 4 \<le> k \<and> k \<le> length md5) \<longrightarrow>
         (\<forall>n. y = Returns n \<longrightarrow>
            (\<exists>k num. n = storage_name md5 k num base \<and> 4 \<le> k \<and> k \<le> length md5))"
proof (rule find_storage_name.raw_induct[OF _ assms,
      where P = "\<lambda>e fs filesDir md5 base prefixSize prefixNum storageName y.
         4 \<le> prefixSize \<longrightarrow>
         (\<exists>k num. storageName = storage_name md5 k num base \<and> 4 \<le> k \<and> k \<le> length md5) \<longrightarrow>
         (\<forall>n. y = Returns n \<longrightarrow>
            (\<exists>k num. n = storage_name md5 k num base \<and> 4 \<le> k \<and> k \<le> length md5))"])
  fix rec :: "env \<Rightarrow> filesystem \<Rightarrow> string \<Rightarrow> string \<Rightarrow> string \<Rightarrow> nat \<Rightarrow> int \<Rightarrow> string \<Rightarrow> string go option"
    and e fs filesDir md5 base prefixSize prefixNum storageName y
  assume IH: "\<And>e fs filesDir md5 base prefixSize prefixNum storageName y.
        rec e fs filesDir md5 base prefixSize prefixNum storageName = Some y \<Longrightarrow>
        4 \<le> prefixSize \<longrightarrow>
         (\<exists>k num. storageName = storage_name md5 k num base \<and> 4 \<le> k \<and> k \<le> length md5) \<longrightarrow>
         (\<forall>n. y = Returns n \<longrightarrow>
            (\<exists>k num. n = storage_name md5 k num base \<and> 4 \<le> k \<and> k \<le> length md5))"
    and body: "(if stat_not_missing e fs (path_join filesDir storageName)
      then if prefixSize < 32
           then if length md5 < prefixSize + 1 then Some Panics
                else rec e fs filesDir md5 base (prefixSize + 1) prefixNum
                      (storage_name md5 (prefixSize + 1) prefixNum base)
           else if length md5 < prefixSize then Some Panics
                else rec e fs filesDir md5 base prefixSize (prefixNum + 1)
                      (storage_name md5 prefixSize (prefixNum + 1) base)
      else Some (Returns storageName)) = Some y"
  show "4 \<le> prefixSize \<longrightarrow>
         (\<exists>k num. storageName = storage_name md5 k num base \<and> 4 \<le> k \<and> k \<le> length md5) \<longrightarrow>
         (\<forall>n. y = Returns n \<longrightarrow>
            (\<exists>k num. n = storage_name md5 k num base \<and> 4 \<le> k \<and> k \<le> length md5))"
  proof (intro impI allI)
    fix n
    assume ps: "4 \<le> prefixSize"
      and good: "\<exists>k num. storageName = storage_name md5 k num base \<and> 4 \<le> k \<and> k \<le> length md5"
      and y: "y = Returns n"
    show "\<exists>k num. n = storage_name md5 k num base \<and> 4 \<le> k \<and> k \<le> length md5"
    proof (cases "stat_not_missing e fs (path_join filesDir storageName)")
      case False
      with body y have "n = storageName" by simp
      with good show ?thesis by simp
    next
      case True
      show ?thesis
      proof (cases "prefixSize < 32")
        case lt: True
        show ?thesis
        proof (cases "length md5 < prefixSize + 1")
          case True
          with body \<open>stat_not_missing e fs (path_join filesDir storageName)\<close> lt y
          show ?thesis by simp
        next
          case False
          with body \<open>stat_not_missing e fs (path_join filesDir storageName)\<close> lt
          have r: "rec e fs filesDir md5 base (prefixSize + 1) prefixNum
                     (storage_name md5 (prefixSize + 1) prefixNum base) = Some y" by simp
          have "\<exists>k num. storage_name md5 (prefixSize + 1) prefixNum base = storage_name md5 k num base \<and>
                  4 \<le> k \<and> k \<le> length md5"
            using ps False by (intro exI[of _ "prefixSize + 1"] exI[of _ prefixNum]) simp
          with IH[OF r] ps y show ?thesis by simp
        qed
      next
        case ge: False
        show ?thesis
        proof (cases "length md5 < prefixSize")
          case True
          with body \<open>stat_not_missing e fs (path_join filesDir storageName)\<close> ge y
          show ?thesis by simp
        next
          case False
          with body \<open>stat_not_missing e fs (path_join filesDir storageName)\<close> ge
          have r: "rec e fs filesDir md5 base prefixSize (prefixNum + 1)
                     (storage_name md5 prefixSize (prefixNum + 1) base) = Some y" by simp
          have "\<exists>k num. storage_name md5 prefixSize (prefixNum + 1) base = storage_name md5 k num base \<and>
                  4 \<le> k \<and> k \<le> length md5"
            using ps False by (intro exI[of _ prefixSize] exI[of _ "prefixNum + 1"]) simp
          with IH[OF r] ps y show ?thesis by simp
        qed
      qed
    qed
  qed
qed

lemma new_storage_name_shape:
  assumes "new_storage_name e fs filesDir nv = Some (Returns n)"
  shows "\<exists>k num. n = storage_name (MD5 nv) k num (Base (Path nv)) \<and> 4 \<le> k \<and> k \<le> length (MD5 nv)"
proof -
  from assms have len: "4 \<le> length (MD5 nv)"
    and f: "find_storage_name e fs filesDir (MD5 nv) (Base (Path nv)) 4 (- 1)
             (storage_name (MD5 nv) 4 (- 1) (Base (Path nv))) = Some (Returns n)"
    by (auto simp: new_storage_name_def split: if_splits)
  have "\<exists>k num. storage_name (MD5 nv) 4 (- 1) (Base (Path nv)) =
           storage_name (MD5 nv) k num (Base (Path nv)) \<and> 4 \<le> k \<and> k \<le> length (MD5 nv)"
    using len by (intro exI[of _ 4] exI[of _ "- 1"]) simp
  with find_storage_name_shape[OF f] show ?thesis by simp
qed

lemma diff_files_names:
  "diff_files e fs filesDir nvs scan m a = Some (Returns (m', a')) \<Longrightarrow>
   \<forall>x \<in> set a'. x \<in> set a \<or>
     (\<exists>nv \<in> set nvs. \<exists>k num. FileStoragePath x = storage_name (MD5 nv) k num (Base (Path nv)) \<and>
        4 \<le> k \<and> k \<le> length (MD5 nv))"
proof (induction nvs arbitrary: m a)
  case Nil
  then show ?case by simp
next
  case (Cons nv rest)
  show ?case
  proof (cases "match_storage nv scan")
    case (Matched fsd)
    with Cons.prems have "diff_files e fs filesDir rest scan
            (m @ [\<lparr>FileStoragePath = Path fsd, InstallPath = Path nv, fsdMD5 = MD5 fsd\<rparr>]) a =
          Some (Returns (m', a'))" by simp
    from Cons.IH[OF this] show ?thesis by auto
  next
    case NotVisited
    with Cons.prems have "diff_files e fs filesDir rest scan m a = Some (Returns (m', a'))" by simp
    from Cons.IH[OF this] show ?thesis by auto
  next
    case Unmatched
    with Cons.prems obtain n where n: "new_storage_name e fs filesDir nv = Some (Returns n)"
      and r: "diff_files e fs filesDir rest scan m
                (a @ [\<lparr>FileStoragePath = n, InstallPath = Path nv, fsdMD5 = MD5 nv\<rparr>]) =
              Some (Returns (m', a'))"
      by (auto split: option.splits go.splits)
    from new_storage_name_shape[OF n] obtain k num where
      k: "n = storage_name (MD5 nv) k num (Base (Path nv))" "4 \<le> k" "k \<le> length (MD5 nv)"
      by blast
    show ?thesis
    proof
      fix x assume "x \<in> set a'"
      with Cons.IH[OF r] have "x \<in> set (a @ [\<lparr>FileStoragePath = n, InstallPath = Path nv, fsdMD5 = MD5 nv\<rparr>]) \<or>
        (\<exists>nv \<in> set rest. \<exists>k num. FileStoragePath x = storage_name (MD5 nv) k num (Base (Path nv)) \<and>
           4 \<le> k \<and> k \<le> length (MD5 nv))" by blast
      then consider "x \<in> set a"
        | "x = \<lparr>FileStoragePath = n, InstallPath = Path nv, fsdMD5 = MD5 nv\<rparr>"
        | "\<exists>nv \<in> set rest. \<exists>k num. FileStoragePath x = storage_name (MD5 nv) k num (Base (Path nv)) \<and>
           4 \<le> k \<and> k \<le> length (MD5 nv)" by auto
      then show "x \<in> set a \<or>
        (\<exists>nv \<in> set (nv # rest). \<exists>k num. FileStoragePath x = storage_name (MD5 nv) k num (Base (Path nv)) \<and>
           4 \<le> k \<and> k \<le> length (MD5 nv))"
      proof cases
        case 1 then show ?thesis by simp
      next
        case 2
        with k have "FileStoragePath x = storage_name (MD5 nv) k num (Base (Path nv)) \<and>
           4 \<le> k \<and> k \<le> length (MD5 nv)" by simp
        then show ?thesis by (intro disjI2 bexI[of _ nv]) auto
      next
        case 3 then show ?thesis by auto
      qed
    qed
  qed
qed

lemma show_nat_digits: "set (show_nat n) \<subseteq> set ''0123456789''"
proof (induction n rule: show_nat.induct)
  case (1 n)
  show ?case
  proof (cases "n < 10")
    case True
    then have "''0123456789'' ! n \<in> set ''0123456789''" by (intro nth_mem) simp
    with True show ?thesis by (subst show_nat.simps) simp
  next
    case False
    have "''0123456789'' ! (n mod 10) \<in> set ''0123456789''" by (intro nth_mem) simp
    with False "1.IH" show ?thesis by (subst show_nat.simps) simp
  qed
qed

lemma show_nat_not_Nil: "show_nat n \<noteq> []"
  by (subst show_nat.simps) simp

lemma show_nat_no_dash: "CHR ''-'' \<notin> set (show_nat n)"
  using show_nat_digits[of n] by auto

lemma show_nat_no_slash: "CHR ''/'' \<notin> set (show_nat n)"
  using show_nat_digits[of n] by auto

lemma itoa_no_slash: "CHR ''/'' \<notin> set (itoa i)"
  by (simp add: itoa_def show_nat_no_slash)

lemma itoa_not_Nil: "itoa i \<noteq> []"
  by (simp add: itoa_def show_nat_not_Nil)

lemma itoa_tl_no_dash: "CHR ''-'' \<notin> set (tl (itoa i))"
proof (cases "i < 0")
  case True
  then show ?thesis by (simp add: itoa_def show_nat_no_dash)
next
  case False
  have "set (tl (show_nat (nat i))) \<subseteq> set (show_nat (nat i))"
    by (cases "show_nat (nat i)") auto
  with False show_nat_no_dash[of "nat i"] show ?thesis by (auto simp: itoa_def)
qed

text \<open>The name of a version file: a dash can only be its first character, and it has no slash.\<close>

lemma version_name_tl_no_dash: "CHR ''-'' \<notin> set (tl (itoa v @ ''.json''))"
  using itoa_tl_no_dash[of v] itoa_not_Nil[of v] by (cases "itoa v") auto

lemma version_name_no_slash: "CHR ''/'' \<notin> set (itoa v @ ''.json'')"
  using itoa_no_slash[of v] by simp

lemma Base_not_Nil: "Base p \<noteq> []"
proof -
  have "takeWhile (\<lambda>c. c \<noteq> CHR ''/'') q \<noteq> []"
    if "q = dropWhile (\<lambda>c. c = CHR ''/'') (rev p)" "q \<noteq> []" for q
  proof -
    from that have "hd q \<noteq> CHR ''/''" using hd_dropWhile[of "\<lambda>c. c = CHR ''/''" "rev p"] by simp
    with that(2) show ?thesis by (cases q) auto
  qed
  then show ?thesis by (auto simp: Base_def Let_def)
qed

lemma Base_slash: "Base p = ''/'' \<or> CHR ''/'' \<notin> set (Base p)"
proof -
  have "CHR ''/'' \<notin> set (takeWhile (\<lambda>c. c \<noteq> CHR ''/'') q)" for q
    by (auto dest: set_takeWhileD)
  then show ?thesis by (auto simp: Base_def Let_def)
qed

lemma path_join_last: "b \<noteq> [] \<Longrightarrow> last (path_join a b) = last b"
  by (simp add: path_join_def)

lemma path_join_last_component:
  assumes b: "b \<noteq> []" "CHR ''/'' \<notin> set b"
  shows "rev (takeWhile (\<lambda>c. c \<noteq> CHR ''/'') (rev (path_join a b))) = b"
proof -
  have t1: "takeWhile (\<lambda>c. c \<noteq> CHR ''/'') (rev b) = rev b"
    by (rule takeWhile_eq_all_conv[THEN iffD2]) (use b in auto)
  have "takeWhile (\<lambda>c. c \<noteq> CHR ''/'') (rev b @ CHR ''/'' # rev a) =
          rev b @ takeWhile (\<lambda>c. c \<noteq> CHR ''/'') (CHR ''/'' # rev a)"
    by (rule takeWhile_append2) (use b in auto)
  then have t2: "takeWhile (\<lambda>c. c \<noteq> CHR ''/'') (rev b @ CHR ''/'' # rev a) = rev b"
    by simp
  show ?thesis
  proof (cases "a = []")
    case True
    then have "path_join a b = b" by (simp add: path_join_def)
    then show ?thesis by (simp only: t1 rev_rev_ident)
  next
    case False
    with b have "path_join a b = a @ ''/'' @ b" by (simp add: path_join_def)
    then have "rev (path_join a b) = rev b @ CHR ''/'' # rev a" by simp
    then show ?thesis by (simp only: t2 rev_rev_ident)
  qed
qed

text \<open>No storage name that the naming loop can return, joined to any directory, is the
  path of a version file, as long as the hash has no slash in it.\<close>

lemma storage_path_not_version_file:
  assumes k: "4 \<le> k" "k \<le> length md5" and slash: "CHR ''/'' \<notin> set md5"
  shows "path_join filesDir (storage_name md5 k num (Base p)) \<noteq> version_file repoDir v"
proof
  let ?name = "storage_name md5 k num (Base p)"
  let ?vn = "itoa v @ ''.json''"
  assume eq: "path_join filesDir ?name = version_file repoDir v"
  have name_ne: "?name \<noteq> []" by (simp add: storage_name_def)
  have vn_ne: "?vn \<noteq> []" by simp
  have last_name: "last ?name = last (Base p)"
    using Base_not_Nil[of p] by (simp add: storage_name_def)
  from eq have "last (path_join filesDir ?name) = last (path_join repoDir ?vn)"
    by (simp add: version_file_def)
  then have "last ?name = last ?vn"
    by (simp only: path_join_last[OF name_ne] path_join_last[OF vn_ne])
  with last_name have "last (Base p) = CHR ''n''" by simp
  then have "Base p \<noteq> ''/''" by auto
  with Base_slash[of p] have base: "CHR ''/'' \<notin> set (Base p)" by simp
  have "set (take k md5) \<subseteq> set md5" by (rule set_take_subset)
  with slash base itoa_no_slash[of num] have name_slash: "CHR ''/'' \<notin> set ?name"
    by (auto simp: storage_name_def)
  from eq have "rev (takeWhile (\<lambda>c. c \<noteq> CHR ''/'') (rev (path_join filesDir ?name))) =
                rev (takeWhile (\<lambda>c. c \<noteq> CHR ''/'') (rev (path_join repoDir ?vn)))"
    by (simp add: version_file_def)
  then have same: "?name = ?vn"
    by (simp only: path_join_last_component[OF name_ne name_slash]
        path_join_last_component[OF vn_ne version_name_no_slash])
  have len: "length (take k md5) = k" using k by simp
  obtain rest where name: "?name = take k md5 @ CHR ''-'' # rest"
    by (cases "num < 0") (auto simp: storage_name_def)
  have "?name ! k = CHR ''-''"
    using nth_append_length[of "take k md5" "CHR ''-''" rest] len name by simp
  moreover have "k < length ?name" using name len by (simp del: length_take)
  moreover have "0 < k" using k by simp
  ultimately have "CHR ''-'' \<in> set (tl ?name)"
    by (cases ?name) (auto simp: nth_Cons' in_set_conv_nth intro!: exI[of _ "k - 1"])
  with same version_name_tl_no_dash[of v] show False by simp
qed

subsection \<open>Failing runs of update\<close>

lemma prepare_Inr_index:
  "prepare e fs repoDir filesDir newVersionDir = Inr (indexData, newVersionMD5s, fileStorageMD5s) \<Longrightarrow>
   \<exists>fileData. fs (index_file repoDir) = Some (File fileData)"
  by (auto simp: prepare_def read_index_def split: outcome.splits sum.splits option.splits
      dest: ReadFile_Inr)

lemma UpdateRepo_failure_index:
  assumes "UpdateRepo e fs repoDir filesDir urlBase newVersionDir versionName versionId = Some (fs', out)"
    and "out \<noteq> Success"
  shows "fs' (index_file repoDir) = fs (index_file repoDir)"
proof (cases "fs (index_file repoDir)")
  case None
  have "\<exists>err. prepare e fs repoDir filesDir newVersionDir = Inl err"
  proof (cases "prepare e fs repoDir filesDir newVersionDir")
    case (Inl err) then show ?thesis by blast
  next
    case (Inr t)
    then show ?thesis using prepare_Inr_index[of e fs repoDir filesDir newVersionDir] None
      by (cases t) auto
  qed
  then obtain err where "prepare e fs repoDir filesDir newVersionDir = Inl err" by blast
  from UpdateRepo_prepare_fails[OF this, of urlBase versionName versionId] assms(1)
  show ?thesis by simp
next
  case (Some n)
  from UpdateRepo_failure_map_le[OF assms] Some show ?thesis
    by (auto simp: map_le_def dom_def)
qed

lemma prepare_Inr_scan:
  "prepare e fs repoDir filesDir newVersionDir = Inr (indexData, newVersionMD5s, fileStorageMD5s) \<Longrightarrow>
   RecursiveMD5Calc e fs newVersionDir = Some newVersionMD5s"
  by (auto simp: prepare_def split: outcome.splits sum.splits option.splits)

lemma UpdateRepo_failure_version_file:
  assumes run: "UpdateRepo e fs repoDir filesDir urlBase newVersionDir versionName versionId = Some (fs', out)"
    and "\<forall>c. out \<noteq> Failed IndexWriteError c" and "out \<noteq> Success"
    and hashes: "\<forall>nvs. RecursiveMD5Calc e fs newVersionDir = Some nvs \<longrightarrow>
                   (\<forall>nv \<in> set nvs. CHR ''/'' \<notin> set (MD5 nv))"
  shows "fs' (version_file repoDir versionId) = fs (version_file repoDir versionId)"
proof -
  have outside: "version_file repoDir versionId \<notin> (\<lambda>m. path_join filesDir (FileStoragePath m)) ` set a"
    if p: "prepare e fs repoDir filesDir newVersionDir = Inr (indexData, nvs, scan)"
      and d: "diff_files e fs filesDir nvs (with_dummy scan) [] [] = Some (Returns (m, a))"
    for indexData nvs scan m a
  proof
    assume "version_file repoDir versionId \<in> (\<lambda>m. path_join filesDir (FileStoragePath m)) ` set a"
    then obtain x where x: "x \<in> set a"
      "path_join filesDir (FileStoragePath x) = version_file repoDir versionId" by auto
    from diff_files_names[OF d] x(1) obtain nv k num where
      nv: "nv \<in> set nvs" "FileStoragePath x = storage_name (MD5 nv) k num (Base (Path nv))"
        "4 \<le> k" "k \<le> length (MD5 nv)" by auto
    from hashes prepare_Inr_scan[OF p] nv(1) have "CHR ''/'' \<notin> set (MD5 nv)" by blast
    from storage_path_not_version_file[OF nv(3,4) this] x(2) nv(2) show False by simp
  qed
  from UpdateRepo_cases[OF run] show ?thesis
  proof (elim disjE exE conjE)
    fix err assume "fs' = fs" then show ?thesis by simp
  next
    assume "fs' = fs" then show ?thesis by simp
  next
    fix indexData newVersionMD5s fileStorageMD5s fileStorageMap addToStorage fs1 r err
    assume "prepare e fs repoDir filesDir newVersionDir = Inr (indexData, newVersionMD5s, fileStorageMD5s)"
      "diff_files e fs filesDir newVersionMD5s (with_dummy fileStorageMD5s) [] [] =
         Some (Returns (fileStorageMap, addToStorage))"
      "copy_files e fs filesDir newVersionDir addToStorage fileStorageMap = (fs1, r)" "fs' = fs1"
    then show ?thesis using copy_files_outside outside by blast
  next
    fix indexData newVersionMD5s fileStorageMD5s fileStorageMap addToStorage fs1 r fileStorageMap'
    assume p: "prepare e fs repoDir filesDir newVersionDir = Inr (indexData, newVersionMD5s, fileStorageMD5s)"
      and d: "diff_files e fs filesDir newVersionMD5s (with_dummy fileStorageMD5s) [] [] =
         Some (Returns (fileStorageMap, addToStorage))"
      and c: "copy_files e fs filesDir newVersionDir addToStorage fileStorageMap = (fs1, r)"
      and w: "write_version_and_index e fs1 repoDir
                  (build_version versionId versionName (with_slash urlBase) fileStorageMap')
                  (indexData\<lparr>Versions := Versions indexData @ [\<lparr>vsId = versionId, vsName = versionName\<rparr>]\<rparr>)
                = (fs', out)"
    from write_version_and_index_cases[OF w] assms(2,3) have "fs' = fs1" by auto
    with copy_files_outside[OF c outside[OF p d]] show ?thesis by simp
  qed
qed

lemma UpdateRepo_index_write_failure:
  assumes run: "UpdateRepo e fs repoDir filesDir urlBase newVersionDir versionName versionId = Some (fs', Failed IndexWriteError c)"
  shows "\<exists>fileStorageMap. fs' (version_file repoDir versionId) =
           Some (File (MarshalVersion e (build_version versionId versionName (with_slash urlBase) fileStorageMap)))"
proof -
  from UpdateRepo_cases[OF run] show ?thesis
  proof (elim disjE exE conjE)
    fix err assume "prepare e fs repoDir filesDir newVersionDir = Inl err" "Failed IndexWriteError c = err"
    then show ?thesis
      by (auto simp: prepare_def check_dir_def read_index_def
          split: outcome.splits sum.splits option.splits if_splits)
  next
    assume "Failed IndexWriteError c = Panicked" then show ?thesis by simp
  next
    fix indexData newVersionMD5s fileStorageMD5s fileStorageMap addToStorage fs1 r err
    assume "copy_files e fs filesDir newVersionDir addToStorage fileStorageMap = (fs1, r)" "r = Inl err"
      "Failed IndexWriteError c = err"
    then show ?thesis using copy_files_Inl by blast
  next
    fix indexData newVersionMD5s fileStorageMD5s fileStorageMap addToStorage fs1 r fileStorageMap'
    assume w: "write_version_and_index e fs1 repoDir
                  (build_version versionId versionName (with_slash urlBase) fileStorageMap')
                  (indexData\<lparr>Versions := Versions indexData @ [\<lparr>vsId = versionId, vsName = versionName\<rparr>]\<rparr>)
                = (fs', Failed IndexWriteError c)"
    from write_version_and_index_cases[OF w] show ?thesis by auto
  qed
qed

text \<open>
  Claim C2. When \<open>UpdateRepo\<close> returns anything but success, the index file is what
  it was before the call, and so is every other path that existed. When the failure is
  not that of opening the index file for writing, the version file is what it was before
  the call (given that no MD5 of the new version's scan has a slash in it, so that no
  storage name is a path). When the failure is that of opening the index file for
  writing, the version file has been written.
\<close>

theorem UpdateRepo_failure_keeps_index:
  assumes "UpdateRepo e fs repoDir filesDir urlBase newVersionDir versionName versionId = Some (fs', out)"
    and "out \<noteq> Success"
  shows "fs' (index_file repoDir) = fs (index_file repoDir) \<and>
         fs \<subseteq>\<^sub>m fs' \<and>
         ((\<forall>c. out \<noteq> Failed IndexWriteError c) \<and>
          (\<forall>nvs. RecursiveMD5Calc e fs newVersionDir = Some nvs \<longrightarrow>
             (\<forall>nv \<in> set nvs. CHR ''/'' \<notin> set (MD5 nv))) \<longrightarrow>
            fs' (version_file repoDir versionId) = fs (version_file repoDir versionId)) \<and>
         ((\<exists>c. out = Failed IndexWriteError c) \<longrightarrow>
            (\<exists>fileStorageMap. fs' (version_file repoDir versionId) =
               Some (File (MarshalVersion e
                  (build_version versionId versionName (with_slash urlBase) fileStorageMap)))))"
  using UpdateRepo_failure_index[OF assms] UpdateRepo_failure_map_le[OF assms]
    UpdateRepo_failure_version_file[OF assms(1) _ assms(2)]
    UpdateRepo_index_write_failure[of e fs repoDir filesDir urlBase newVersionDir versionName versionId fs']
    assms(1)
  by blast

lemma demo_prepare_col:
  "prepare demo_env demo_fs ''repo'' ''store'' ''col'' =
     Inr (empty_index,
          [\<lparr>Path = ''p/x.txt'', MD5 = ''abcd5e0f1a2b3c4d5e6f708192a3b4c5''\<rparr>,
           \<lparr>Path = ''q/x.txt'', MD5 = ''abcd99887766554433221100ffeeddcc''\<rparr>],
          [])"
  by (simp add: prepare_def demo_env_sel os_defs path_defs scan_defs json_defs demo_fs_apply)

lemma demo_diff_col:
  "diff_files demo_env demo_fs ''store''
          [\<lparr>Path = ''p/x.txt'', MD5 = ''abcd5e0f1a2b3c4d5e6f708192a3b4c5''\<rparr>,
           \<lparr>Path = ''q/x.txt'', MD5 = ''abcd99887766554433221100ffeeddcc''\<rparr>]
          (with_dummy []) [] [] =
    Some (Returns ([],
      [\<lparr>FileStoragePath = ''abcd-x.txt'', InstallPath = ''p/x.txt'', fsdMD5 = ''abcd5e0f1a2b3c4d5e6f708192a3b4c5''\<rparr>,
       \<lparr>FileStoragePath = ''abcd-x.txt'', InstallPath = ''q/x.txt'', fsdMD5 = ''abcd99887766554433221100ffeeddcc''\<rparr>]))"
  by (simp add: with_dummy_def new_storage_name_def find_storage_name.simps
      demo_env_sel os_defs path_defs demo_fs_apply)

lemma demo_copy_col:
  "copy_files demo_env demo_fs ''store'' ''col''
      [\<lparr>FileStoragePath = ''abcd-x.txt'', InstallPath = ''p/x.txt'', fsdMD5 = ''abcd5e0f1a2b3c4d5e6f708192a3b4c5''\<rparr>,
       \<lparr>FileStoragePath = ''abcd-x.txt'', InstallPath = ''q/x.txt'', fsdMD5 = ''abcd99887766554433221100ffeeddcc''\<rparr>]
      [] =
     (demo_fs(''store/abcd-x.txt'' \<mapsto> File ''alpha''), Inl (Failed CreateFileError 42))"
  by (simp add: demo_env_sel os_defs path_defs demo_fs_apply)

lemma demo_publish_col:
  "UpdateRepo demo_env demo_fs ''repo'' ''store'' ''http://x'' ''col'' ''2.0'' 2 =
     Some (demo_fs(''store/abcd-x.txt'' \<mapsto> File ''alpha''), Failed CreateFileError 42)"
  by (rule UpdateRepo_copy_fails[OF demo_prepare_col demo_diff_col demo_copy_col])

lemma readonly_env_sel:
  "fault readonly_env SysStat = (\<lambda>p. None)"
  "fault readonly_env SysOpenRead = (\<lambda>p. None)"
  "fault readonly_env SysCreateExcl = (\<lambda>p. None)"
  "fault readonly_env SysOpenWrite = (\<lambda>p. Some ErrPermission)"
  "RecursiveMD5Calc readonly_env = demo_RecursiveMD5Calc"
  "Unmarshal readonly_env = demo_Unmarshal"
  "MarshalIndex readonly_env = json_index"
  "MarshalVersion readonly_env = json_version"
  by (simp_all add: readonly_env_def demo_env_def)

lemma readonly_prepare_new:
  "prepare readonly_env demo_fs ''repo'' ''store'' ''new'' =
     Inr (empty_index,
          [\<lparr>Path = ''a.txt'', MD5 = ''abcd5e0f1a2b3c4d5e6f708192a3b4c5''\<rparr>,
           \<lparr>Path = ''b.txt'', MD5 = ''1234aa55aa55aa55aa55aa55aa55aa55''\<rparr>],
          [])"
  by (simp add: prepare_def readonly_env_sel os_defs path_defs scan_defs json_defs demo_fs_apply)

lemma readonly_diff_new:
  "diff_files readonly_env demo_fs ''store''
          [\<lparr>Path = ''a.txt'', MD5 = ''abcd5e0f1a2b3c4d5e6f708192a3b4c5''\<rparr>,
           \<lparr>Path = ''b.txt'', MD5 = ''1234aa55aa55aa55aa55aa55aa55aa55''\<rparr>]
          (with_dummy []) [] [] =
    Some (Returns ([],
      [\<lparr>FileStoragePath = ''abcd-a.txt'', InstallPath = ''a.txt'', fsdMD5 = ''abcd5e0f1a2b3c4d5e6f708192a3b4c5''\<rparr>,
       \<lparr>FileStoragePath = ''1234-b.txt'', InstallPath = ''b.txt'', fsdMD5 = ''1234aa55aa55aa55aa55aa55aa55aa55''\<rparr>]))"
  by (simp add: with_dummy_def new_storage_name_def find_storage_name.simps
      readonly_env_sel os_defs path_defs demo_fs_apply)

lemma readonly_copy_new:
  "copy_files readonly_env demo_fs ''store'' ''new''
      [\<lparr>FileStoragePath = ''abcd-a.txt'', InstallPath = ''a.txt'', fsdMD5 = ''abcd5e0f1a2b3c4d5e6f708192a3b4c5''\<rparr>,
       \<lparr>FileStoragePath = ''1234-b.txt'', InstallPath = ''b.txt'', fsdMD5 = ''1234aa55aa55aa55aa55aa55aa55aa55''\<rparr>]
      [] =
     (demo_fs(''store/abcd-a.txt'' \<mapsto> File ''alpha'', ''store/1234-b.txt'' \<mapsto> File ''gamma''),
      Inr [\<lparr>FileStoragePath = ''abcd-a.txt'', InstallPath = ''a.txt'', fsdMD5 = ''abcd5e0f1a2b3c4d5e6f708192a3b4c5''\<rparr>,
           \<lparr>FileStoragePath = ''1234-b.txt'', InstallPath = ''b.txt'', fsdMD5 = ''1234aa55aa55aa55aa55aa55aa55aa55''\<rparr>])"
  by (simp add: readonly_env_sel os_defs path_defs demo_fs_apply)

lemma demo_build_version:
  "build_version 1 ''1.0'' (with_slash ''http://x'')
        [\<lparr>FileStoragePath = ''abcd-a.txt'', InstallPath = ''a.txt'', fsdMD5 = ''abcd5e0f1a2b3c4d5e6f708192a3b4c5''\<rparr>,
         \<lparr>FileStoragePath = ''1234-b.txt'', InstallPath = ''b.txt'', fsdMD5 = ''1234aa55aa55aa55aa55aa55aa55aa55''\<rparr>]
     = published_version"
  by (simp add: build_version_def file_info_def with_slash_def HasSuffix_def published_version_def)

lemma readonly_write_new:
  "write_version_and_index readonly_env
     (demo_fs(''store/abcd-a.txt'' \<mapsto> File ''alpha'', ''store/1234-b.txt'' \<mapsto> File ''gamma''))
     ''repo''
     (build_version 1 ''1.0'' (with_slash ''http://x'')
        [\<lparr>FileStoragePath = ''abcd-a.txt'', InstallPath = ''a.txt'', fsdMD5 = ''abcd5e0f1a2b3c4d5e6f708192a3b4c5''\<rparr>,
         \<lparr>FileStoragePath = ''1234-b.txt'', InstallPath = ''b.txt'', fsdMD5 = ''1234aa55aa55aa55aa55aa55aa55aa55''\<rparr>])
     (empty_index\<lparr>Versions := Versions empty_index @ [\<lparr>vsId = 1, vsName = ''1.0''\<rparr>]\<rparr>) =
   (demo_fs(''store/abcd-a.txt'' \<mapsto> File ''alpha'', ''store/1234-b.txt'' \<mapsto> File ''gamma'',
            ''repo/1.json'' \<mapsto> File (json_version published_version)),
    Failed IndexWriteError 45)"
proof -
  have id1: "verId published_version = 1" by (simp add: published_version_def)
  show ?thesis unfolding demo_build_version
    by (simp add: write_version_and_index_def id1 index_write_code_def
        readonly_env_sel os_defs path_defs demo_fs_apply)
qed

lemma readonly_publish_new:
  "UpdateRepo readonly_env demo_fs ''repo'' ''store'' ''http://x'' ''new'' ''1.0'' 1 =
     Some (demo_fs(''store/abcd-a.txt'' \<mapsto> File ''alpha'', ''store/1234-b.txt'' \<mapsto> File ''gamma'',
            ''repo/1.json'' \<mapsto> File (json_version published_version)),
           Failed IndexWriteError 45)"
  using UpdateRepo_writes[OF readonly_prepare_new readonly_diff_new readonly_copy_new, of "''http://x''" "''1.0''" 1]
  by (simp only: readonly_write_new)

text \<open>
  Two failing runs for C2: a copy that fails (two new files are given one storage name),
  and an index file that cannot be opened for writing, which leaves the version file.
\<close>

theorem UpdateRepo_failure_keeps_index_witness:
  "UpdateRepo demo_env demo_fs ''repo'' ''store'' ''http://x'' ''col'' ''2.0'' 2 =
     Some (demo_fs(''store/abcd-x.txt'' \<mapsto> File ''alpha''), Failed CreateFileError 42) \<and>
   (demo_fs(''store/abcd-x.txt'' \<mapsto> File ''alpha'')) ''repo/index.json'' = demo_fs ''repo/index.json'' \<and>
   (demo_fs(''store/abcd-x.txt'' \<mapsto> File ''alpha'')) ''repo/2.json'' = demo_fs ''repo/2.json'' \<and>
   UpdateRepo readonly_env demo_fs ''repo'' ''store'' ''http://x'' ''new'' ''1.0'' 1 =
     Some (demo_fs(''store/abcd-a.txt'' \<mapsto> File ''alpha'', ''store/1234-b.txt'' \<mapsto> File ''gamma'',
            ''repo/1.json'' \<mapsto> File (json_version published_version)),
           Failed IndexWriteError 45) \<and>
   (demo_fs(''store/abcd-a.txt'' \<mapsto> File ''alpha'', ''store/1234-b.txt'' \<mapsto> File ''gamma'',
            ''repo/1.json'' \<mapsto> File (json_version published_version))) ''repo/index.json'' =
     demo_fs ''repo/index.json''"
proof -
  have f1: "Failed CreateFileError 42 \<noteq> Success" and f2: "Failed IndexWriteError 45 \<noteq> Success"
    by simp_all
  have i: "index_file ''repo'' = ''repo/index.json''" by (simp add: index_file_def path_join_def)
  have v: "version_file ''repo'' 2 = ''repo/2.json''"
    by (simp add: version_file_def path_join_def itoa_def show_nat.simps)
  have na: "\<forall>nvs. RecursiveMD5Calc demo_env demo_fs ''col'' = Some nvs \<longrightarrow>
               (\<forall>nv \<in> set nvs. CHR ''/'' \<notin> set (MD5 nv))"
    by (simp add: demo_env_sel scan_defs path_defs demo_fs_apply)
  have ni: "\<forall>c. Failed CreateFileError 42 \<noteq> Failed IndexWriteError c" by simp
  from UpdateRepo_failure_keeps_index[OF demo_publish_col f1] na ni
  have a: "(demo_fs(''store/abcd-x.txt'' \<mapsto> File ''alpha'')) ''repo/index.json'' = demo_fs ''repo/index.json'' \<and>
           (demo_fs(''store/abcd-x.txt'' \<mapsto> File ''alpha'')) ''repo/2.json'' = demo_fs ''repo/2.json''"
    unfolding i v by blast
  from UpdateRepo_failure_keeps_index[OF readonly_publish_new f2]
  have b: "(demo_fs(''store/abcd-a.txt'' \<mapsto> File ''alpha'', ''store/1234-b.txt'' \<mapsto> File ''gamma'',
            ''repo/1.json'' \<mapsto> File (json_version published_version))) ''repo/index.json'' =
     demo_fs ''repo/index.json''"
    unfolding i by blast
  from a b demo_publish_col readonly_publish_new show ?thesis by blast
qed

lemma UpdateRepo_existing_fails:
  assumes ex: "fs (version_file repoDir versionId) = Some n"
    and run: "UpdateRepo e fs repoDir filesDir urlBase newVersionDir versionName versionId = Some (fs', out)"
  shows "out \<noteq> Success"
proof -
  from UpdateRepo_cases[OF run] show ?thesis
  proof (elim disjE exE conjE)
    fix err assume "prepare e fs repoDir filesDir newVersionDir = Inl err" "out = err"
    then show ?thesis using prepare_Inl_not_Success by blast
  next
    assume "out = Panicked" then show ?thesis by simp
  next
    fix indexData newVersionMD5s fileStorageMD5s fileStorageMap addToStorage fs1 r err
    assume "copy_files e fs filesDir newVersionDir addToStorage fileStorageMap = (fs1, r)" "r = Inl err"
      "out = err"
    then show ?thesis using copy_files_Inl by blast
  next
    fix indexData newVersionMD5s fileStorageMD5s fileStorageMap addToStorage fs1 r fileStorageMap'
    assume c: "copy_files e fs filesDir newVersionDir addToStorage fileStorageMap = (fs1, r)"
      and w: "write_version_and_index e fs1 repoDir
                  (build_version versionId versionName (with_slash urlBase) fileStorageMap')
                  (indexData\<lparr>Versions := Versions indexData @ [\<lparr>vsId = versionId, vsName = versionName\<rparr>]\<rparr>)
                = (fs', out)"
    from copy_files_map_le[OF c] ex have "fs1 (version_file repoDir versionId) = Some n"
      by (auto simp: map_le_def dom_def)
    then have "\<exists>c. write_version_and_index e fs1 repoDir
                  (build_version versionId versionName (with_slash urlBase) fileStorageMap')
                  (indexData\<lparr>Versions := Versions indexData @ [\<lparr>vsId = versionId, vsName = versionName\<rparr>]\<rparr>)
                = (fs1, Failed VersionFileError c)"
      by (intro write_version_and_index_exists) simp
    with w show ?thesis by auto
  qed
qed

text \<open>
  Claim C1, as the code has it. With a version file for the given version ID already
  in the repository, no run of \<open>UpdateRepo\<close> for that ID succeeds, and any run that
  returns leaves that file and the index file as they were. The version file is the
  last thing but one the run opens: a run returns the "version already exists" failure,
  exit code 44, when it gets as far as that file, that is when the checks, the two
  scans, the matching and the copies succeed (and the operating system raises no other
  error on the create); the file system is then as the copies left it. A run in which
  an earlier step fails returns the failure of that step.
\<close>

theorem UpdateRepo_existing_version:
  assumes "fs (version_file repoDir versionId) = Some n"
  shows "(UpdateRepo e fs repoDir filesDir urlBase newVersionDir versionName versionId = Some (fs', out) \<longrightarrow>
            out \<noteq> Success \<and>
            fs' (version_file repoDir versionId) = Some n \<and>
            fs' (index_file repoDir) = fs (index_file repoDir)) \<and>
         (prepare e fs repoDir filesDir newVersionDir = Inr (indexData, newVersionMD5s, fileStorageMD5s) \<and>
          diff_files e fs filesDir newVersionMD5s (with_dummy fileStorageMD5s) [] [] =
            Some (Returns (fileStorageMap, addToStorage)) \<and>
          copy_files e fs filesDir newVersionDir addToStorage fileStorageMap = (fsCopied, Inr fileStorageMap') \<and>
          fault e SysCreateExcl (version_file repoDir versionId) = None \<longrightarrow>
            UpdateRepo e fs repoDir filesDir urlBase newVersionDir versionName versionId =
              Some (fsCopied, Failed VersionFileError 44) \<and>
            fsCopied (version_file repoDir versionId) = Some n \<and>
            fsCopied (index_file repoDir) = fs (index_file repoDir))"
proof (intro conjI impI)
  assume run: "UpdateRepo e fs repoDir filesDir urlBase newVersionDir versionName versionId = Some (fs', out)"
  from UpdateRepo_existing_fails[OF assms run] show ns: "out \<noteq> Success" .
  from UpdateRepo_failure_map_le[OF run ns] assms
  show "fs' (version_file repoDir versionId) = Some n"
    by (auto simp: map_le_def dom_def)
  from UpdateRepo_failure_index[OF run ns]
  show "fs' (index_file repoDir) = fs (index_file repoDir)" .
next
  assume a: "prepare e fs repoDir filesDir newVersionDir = Inr (indexData, newVersionMD5s, fileStorageMD5s) \<and>
          diff_files e fs filesDir newVersionMD5s (with_dummy fileStorageMD5s) [] [] =
            Some (Returns (fileStorageMap, addToStorage)) \<and>
          copy_files e fs filesDir newVersionDir addToStorage fileStorageMap = (fsCopied, Inr fileStorageMap') \<and>
          fault e SysCreateExcl (version_file repoDir versionId) = None"
  then have p: "prepare e fs repoDir filesDir newVersionDir = Inr (indexData, newVersionMD5s, fileStorageMD5s)"
    and d: "diff_files e fs filesDir newVersionMD5s (with_dummy fileStorageMD5s) [] [] =
            Some (Returns (fileStorageMap, addToStorage))"
    and c: "copy_files e fs filesDir newVersionDir addToStorage fileStorageMap = (fsCopied, Inr fileStorageMap')"
    and f: "fault e SysCreateExcl (version_file repoDir versionId) = None" by simp_all
  from copy_files_map_le[OF c] assms show ex1: "fsCopied (version_file repoDir versionId) = Some n"
    by (auto simp: map_le_def dom_def)
  have "write_version_and_index e fsCopied repoDir
          (build_version versionId versionName (with_slash urlBase) fileStorageMap')
          (indexData\<lparr>Versions := Versions indexData @ [\<lparr>vsId = versionId, vsName = versionName\<rparr>]\<rparr>)
        = (fsCopied, Failed VersionFileError 44)"
    by (rule write_version_and_index_exists_44) (simp_all add: ex1 f)
  with UpdateRepo_writes[OF p d c, of urlBase versionName versionId]
  show run: "UpdateRepo e fs repoDir filesDir urlBase newVersionDir versionName versionId =
              Some (fsCopied, Failed VersionFileError 44)" by simp
  from UpdateRepo_failure_index[OF run]
  show "fsCopied (index_file repoDir) = fs (index_file repoDir)" by simp
qed

lemma published_fs_apply:
  "published_fs p =
     map_of
       [(''repo/index.json'', File (json_index published_index)),
        (''repo/1.json'', File (json_version published_version)),
        (''store/1234-b.txt'', File ''gamma''),
        (''store/abcd-a.txt'', File ''alpha''),
        (''repo'', Dir), (''store'', Dir),
        (''new'', Dir), (''new/a.txt'', File ''alpha''), (''new/b.txt'', File ''gamma''),
        (''dup'', Dir), (''dup/a.txt'', File ''alpha''), (''dup/b.txt'', File ''alpha''),
        (''col'', Dir), (''col/p'', Dir), (''col/p/x.txt'', File ''alpha''), (''col/q'', Dir),
        (''col/q/x.txt'', File ''beta''), (''one'', Dir), (''one/a.txt'', File ''alpha'')] p"
  by (simp add: published_fs_def demo_fs_def)

lemma published_prepare_one:
  "prepare demo_env published_fs ''repo'' ''store'' ''one'' =
     Inr (published_index,
          [\<lparr>Path = ''a.txt'', MD5 = ''abcd5e0f1a2b3c4d5e6f708192a3b4c5''\<rparr>],
          [\<lparr>Path = ''1234-b.txt'', MD5 = ''1234aa55aa55aa55aa55aa55aa55aa55''\<rparr>,
           \<lparr>Path = ''abcd-a.txt'', MD5 = ''abcd5e0f1a2b3c4d5e6f708192a3b4c5''\<rparr>])"
  by (simp add: prepare_def demo_env_sel os_defs path_defs scan_defs json_defs published_fs_apply)

lemma published_diff_one:
  "diff_files demo_env published_fs ''store''
          [\<lparr>Path = ''a.txt'', MD5 = ''abcd5e0f1a2b3c4d5e6f708192a3b4c5''\<rparr>]
          (with_dummy
             [\<lparr>Path = ''1234-b.txt'', MD5 = ''1234aa55aa55aa55aa55aa55aa55aa55''\<rparr>,
              \<lparr>Path = ''abcd-a.txt'', MD5 = ''abcd5e0f1a2b3c4d5e6f708192a3b4c5''\<rparr>]) [] [] =
    Some (Returns (
      [\<lparr>FileStoragePath = ''abcd-a.txt'', InstallPath = ''a.txt'', fsdMD5 = ''abcd5e0f1a2b3c4d5e6f708192a3b4c5''\<rparr>],
      []))"
  by (simp add: with_dummy_def)

lemma published_copy_one:
  "copy_files demo_env published_fs ''store'' ''one'' []
      [\<lparr>FileStoragePath = ''abcd-a.txt'', InstallPath = ''a.txt'', fsdMD5 = ''abcd5e0f1a2b3c4d5e6f708192a3b4c5''\<rparr>] =
     (published_fs,
      Inr [\<lparr>FileStoragePath = ''abcd-a.txt'', InstallPath = ''a.txt'', fsdMD5 = ''abcd5e0f1a2b3c4d5e6f708192a3b4c5''\<rparr>])"
  by simp

text \<open>Version 1 published a second time, from the tree \<open>one\<close>, into the repository that has it.\<close>

theorem UpdateRepo_existing_version_witness:
  "published_fs ''repo/1.json'' = Some (File (json_version published_version)) \<and>
   UpdateRepo demo_env published_fs ''repo'' ''store'' ''http://x'' ''one'' ''1.0b'' 1 =
     Some (published_fs, Failed VersionFileError 44)"
proof -
  have v: "version_file ''repo'' 1 = ''repo/1.json''"
    by (simp add: version_file_def path_join_def itoa_def show_nat.simps)
  have ex: "published_fs (version_file ''repo'' 1) = Some (File (json_version published_version))"
    unfolding v by (simp add: published_fs_apply)
  have nf: "fault demo_env SysCreateExcl (version_file ''repo'' 1) = None"
    by (simp add: demo_env_sel)
  note th = UpdateRepo_existing_version[where fs = published_fs and repoDir = "''repo''"
      and versionId = 1 and n = "File (json_version published_version)" and e = demo_env
      and filesDir = "''store''" and newVersionDir = "''one''" and urlBase = "''http://x''"
      and versionName = "''1.0b''" and indexData = published_index and fsCopied = published_fs
      and newVersionMD5s = "[\<lparr>Path = ''a.txt'', MD5 = ''abcd5e0f1a2b3c4d5e6f708192a3b4c5''\<rparr>]"
      and fileStorageMD5s = "[\<lparr>Path = ''1234-b.txt'', MD5 = ''1234aa55aa55aa55aa55aa55aa55aa55''\<rparr>,
           \<lparr>Path = ''abcd-a.txt'', MD5 = ''abcd5e0f1a2b3c4d5e6f708192a3b4c5''\<rparr>]"
      and fileStorageMap = "[\<lparr>FileStoragePath = ''abcd-a.txt'', InstallPath = ''a.txt'', fsdMD5 = ''abcd5e0f1a2b3c4d5e6f708192a3b4c5''\<rparr>]"
      and addToStorage = "[]"
      and fileStorageMap' = "[\<lparr>FileStoragePath = ''abcd-a.txt'', InstallPath = ''a.txt'', fsdMD5 = ''abcd5e0f1a2b3c4d5e6f708192a3b4c5''\<rparr>]"]
  from th ex published_prepare_one published_diff_one published_copy_one nf
  have "UpdateRepo demo_env published_fs ''repo'' ''store'' ''http://x'' ''one'' ''1.0b'' 1 =
     Some (published_fs, Failed VersionFileError 44)"
    by blast
  with ex show ?thesis unfolding v by blast
qed

lemma bare_fs_apply:
  "bare_fs p =
     map_of
       [(''repo/index.json'', File (json_index published_index)),
        (''repo/1.json'', File (json_version bare_version)),
        (''repo'', Dir), (''store'', Dir),
        (''new'', Dir), (''new/a.txt'', File ''alpha''), (''new/b.txt'', File ''gamma''),
        (''dup'', Dir), (''dup/a.txt'', File ''alpha''), (''dup/b.txt'', File ''alpha''),
        (''col'', Dir), (''col/p'', Dir), (''col/p/x.txt'', File ''alpha''), (''col/q'', Dir),
        (''col/q/x.txt'', File ''beta''), (''one'', Dir), (''one/a.txt'', File ''alpha'')] p"
  by (simp add: bare_fs_def demo_fs_def)

lemma bare_prepare_col:
  "prepare demo_env bare_fs ''repo'' ''store'' ''col'' =
     Inr (published_index,
          [\<lparr>Path = ''p/x.txt'', MD5 = ''abcd5e0f1a2b3c4d5e6f708192a3b4c5''\<rparr>,
           \<lparr>Path = ''q/x.txt'', MD5 = ''abcd99887766554433221100ffeeddcc''\<rparr>],
          [])"
  by (simp add: prepare_def demo_env_sel os_defs path_defs scan_defs json_defs bare_fs_apply)

lemma bare_diff_col:
  "diff_files demo_env bare_fs ''store''
          [\<lparr>Path = ''p/x.txt'', MD5 = ''abcd5e0f1a2b3c4d5e6f708192a3b4c5''\<rparr>,
           \<lparr>Path = ''q/x.txt'', MD5 = ''abcd99887766554433221100ffeeddcc''\<rparr>]
          (with_dummy []) [] [] =
    Some (Returns ([],
      [\<lparr>FileStoragePath = ''abcd-x.txt'', InstallPath = ''p/x.txt'', fsdMD5 = ''abcd5e0f1a2b3c4d5e6f708192a3b4c5''\<rparr>,
       \<lparr>FileStoragePath = ''abcd-x.txt'', InstallPath = ''q/x.txt'', fsdMD5 = ''abcd99887766554433221100ffeeddcc''\<rparr>]))"
  by (simp add: with_dummy_def new_storage_name_def find_storage_name.simps
      demo_env_sel os_defs path_defs bare_fs_apply)

lemma bare_copy_col:
  "copy_files demo_env bare_fs ''store'' ''col''
      [\<lparr>FileStoragePath = ''abcd-x.txt'', InstallPath = ''p/x.txt'', fsdMD5 = ''abcd5e0f1a2b3c4d5e6f708192a3b4c5''\<rparr>,
       \<lparr>FileStoragePath = ''abcd-x.txt'', InstallPath = ''q/x.txt'', fsdMD5 = ''abcd99887766554433221100ffeeddcc''\<rparr>]
      [] =
     (bare_fs(''store/abcd-x.txt'' \<mapsto> File ''alpha''), Inl (Failed CreateFileError 42))"
  by (simp add: demo_env_sel os_defs path_defs bare_fs_apply)

text \<open>
  The claim C1 as stated fails: the repository holds the version file of version 1, and
  a publish of version 1 from the tree \<open>col\<close> does not get as far as that file. Its two
  files are given one storage name, the second copy fails, and the run returns the
  failure of the copy, exit code 42, not the "version already exists" failure.
\<close>

theorem UpdateRepo_existing_version_counterexample:
  "bare_fs (version_file ''repo'' 1) = Some (File (json_version bare_version)) \<and>
   UpdateRepo demo_env bare_fs ''repo'' ''store'' ''http://x'' ''col'' ''1.0'' 1 =
     Some (bare_fs(''store/abcd-x.txt'' \<mapsto> File ''alpha''), Failed CreateFileError 42) \<and>
   Failed CreateFileError 42 \<noteq> Failed VersionFileError 44"
proof -
  have v: "version_file ''repo'' 1 = ''repo/1.json''"
    by (simp add: version_file_def path_join_def itoa_def show_nat.simps)
  have "bare_fs (version_file ''repo'' 1) = Some (File (json_version bare_version))"
    unfolding v by (simp add: bare_fs_apply)
  moreover have "UpdateRepo demo_env bare_fs ''repo'' ''store'' ''http://x'' ''col'' ''1.0'' 1 =
     Some (bare_fs(''store/abcd-x.txt'' \<mapsto> File ''alpha''), Failed CreateFileError 42)"
    by (rule UpdateRepo_copy_fails[OF bare_prepare_col bare_diff_col bare_copy_col])
  ultimately show ?thesis by simp
qed

subsection \<open>The naming loop\<close>

text \<open>A name the loop returns is one that \<open>os.Stat\<close> reported as not existing.\<close>

lemma find_storage_name_missing:
  assumes "find_storage_name e fs filesDir md5 base prefixSize prefixNum storageName = Some y"
  shows "\<forall>n. y = Returns n \<longrightarrow> os_Stat e fs (path_join filesDir n) = Inl ErrNotExist"
proof (rule find_storage_name.raw_induct[OF _ assms,
      where P = "\<lambda>e fs filesDir md5 base prefixSize prefixNum storageName y.
         \<forall>n. y = Returns n \<longrightarrow> os_Stat e fs (path_join filesDir n) = Inl ErrNotExist"])
  fix rec :: "env \<Rightarrow> filesystem \<Rightarrow> string \<Rightarrow> string \<Rightarrow> string \<Rightarrow> nat \<Rightarrow> int \<Rightarrow> string \<Rightarrow> string go option"
    and e fs filesDir md5 base prefixSize prefixNum storageName y
  assume IH: "\<And>e fs filesDir md5 base prefixSize prefixNum storageName y.
        rec e fs filesDir md5 base prefixSize prefixNum storageName = Some y \<Longrightarrow>
        \<forall>n. y = Returns n \<longrightarrow> os_Stat e fs (path_join filesDir n) = Inl ErrNotExist"
    and body: "(if stat_not_missing e fs (path_join filesDir storageName)
      then if prefixSize < 32
           then if length md5 < prefixSize + 1 then Some Panics
                else rec e fs filesDir md5 base (prefixSize + 1) prefixNum
                      (storage_name md5 (prefixSize + 1) prefixNum base)
           else if length md5 < prefixSize then Some Panics
                else rec e fs filesDir md5 base prefixSize (prefixNum + 1)
                      (storage_name md5 prefixSize (prefixNum + 1) base)
      else Some (Returns storageName)) = Some y"
  show "\<forall>n. y = Returns n \<longrightarrow> os_Stat e fs (path_join filesDir n) = Inl ErrNotExist"
  proof (cases "stat_not_missing e fs (path_join filesDir storageName)")
    case False
    then have "os_Stat e fs (path_join filesDir storageName) = Inl ErrNotExist"
      by (auto simp: stat_not_missing_def split: sum.splits oserror.splits)
    with body False show ?thesis by auto
  next
    case True
    with body IH show ?thesis by (auto split: if_splits)
  qed
qed

text \<open>
  While \<open>os.Stat\<close> answers every probe with success or with an error other than "does
  not exist" (permission denied, name too long), the loop does not end.
\<close>

lemma find_storage_name_never_returns:
  assumes probes: "\<forall>n. stat_not_missing e fs (path_join filesDir n)"
    and len: "32 \<le> length md5" and k: "prefixSize \<le> 32"
  shows "find_storage_name e fs filesDir md5 base prefixSize prefixNum storageName = None"
proof (rule ccontr)
  assume "find_storage_name e fs filesDir md5 base prefixSize prefixNum storageName \<noteq> None"
  then obtain y where
    y: "find_storage_name e fs filesDir md5 base prefixSize prefixNum storageName = Some y" by auto
  have "(\<forall>n. stat_not_missing e fs (path_join filesDir n)) \<longrightarrow> 32 \<le> length md5 \<longrightarrow>
          prefixSize \<le> 32 \<longrightarrow> False"
  proof (rule find_storage_name.raw_induct[OF _ y,
      where P = "\<lambda>e fs filesDir md5 base prefixSize prefixNum storageName y.
         (\<forall>n. stat_not_missing e fs (path_join filesDir n)) \<longrightarrow> 32 \<le> length md5 \<longrightarrow>
          prefixSize \<le> 32 \<longrightarrow> False"])
    fix rec :: "env \<Rightarrow> filesystem \<Rightarrow> string \<Rightarrow> string \<Rightarrow> string \<Rightarrow> nat \<Rightarrow> int \<Rightarrow> string \<Rightarrow> string go option"
      and e fs filesDir md5 base prefixSize prefixNum storageName y
    assume IH: "\<And>e fs filesDir md5 base prefixSize prefixNum storageName y.
        rec e fs filesDir md5 base prefixSize prefixNum storageName = Some y \<Longrightarrow>
        (\<forall>n. stat_not_missing e fs (path_join filesDir n)) \<longrightarrow> 32 \<le> length md5 \<longrightarrow>
          prefixSize \<le> 32 \<longrightarrow> False"
      and body: "(if stat_not_missing e fs (path_join filesDir storageName)
        then if prefixSize < 32
             then if length md5 < prefixSize + 1 then Some Panics
                  else rec e fs filesDir md5 base (prefixSize + 1) prefixNum
                        (storage_name md5 (prefixSize + 1) prefixNum base)
             else if length md5 < prefixSize then Some Panics
                  else rec e fs filesDir md5 base prefixSize (prefixNum + 1)
                        (storage_name md5 prefixSize (prefixNum + 1) base)
        else Some (Returns storageName)) = Some y"
    show "(\<forall>n. stat_not_missing e fs (path_join filesDir n)) \<longrightarrow> 32 \<le> length md5 \<longrightarrow>
          prefixSize \<le> 32 \<longrightarrow> False"
    proof (intro impI)
      assume a: "\<forall>n. stat_not_missing e fs (path_join filesDir n)" "32 \<le> length md5" "prefixSize \<le> 32"
      show False
      proof (cases "prefixSize < 32")
        case True
        with a body have "rec e fs filesDir md5 base (prefixSize + 1) prefixNum
                        (storage_name md5 (prefixSize + 1) prefixNum base) = Some y" by simp
        from IH[OF this] a True show False by simp
      next
        case False
        with a body have "rec e fs filesDir md5 base prefixSize (prefixNum + 1)
                        (storage_name md5 prefixSize (prefixNum + 1) base) = Some y" by simp
        from IH[OF this] a show False by simp
      qed
    qed
  qed
  with probes len k show False by simp
qed

text \<open>
  With a full-length hash, the loop returns as soon as \<open>os.Stat\<close> reports one of the
  numbered names still ahead as not existing.
\<close>

lemma find_storage_name_returns:
  assumes len: "32 \<le> length md5"
    and missing: "\<not> stat_not_missing e fs (path_join filesDir (storage_name md5 32 j base))"
  shows "prefixSize \<le> 32 \<Longrightarrow>
         prefixNum < j \<or> \<not> stat_not_missing e fs (path_join filesDir storageName) \<Longrightarrow>
         \<exists>n. find_storage_name e fs filesDir md5 base prefixSize prefixNum storageName =
               Some (Returns n)"
proof (induction "(32 - prefixSize) + nat (j - prefixNum)"
    arbitrary: prefixSize prefixNum storageName rule: less_induct)
  case less
  show ?case
  proof (cases "stat_not_missing e fs (path_join filesDir storageName)")
    case False
    then show ?thesis by (subst find_storage_name.simps) simp
  next
    case True
    with less.prems have lt: "prefixNum < j" by simp
    show ?thesis
    proof (cases "prefixSize < 32")
      case True
      have "\<exists>n. find_storage_name e fs filesDir md5 base (prefixSize + 1) prefixNum
                  (storage_name md5 (prefixSize + 1) prefixNum base) = Some (Returns n)"
        by (rule less.hyps) (use True lt in auto)
      with True \<open>stat_not_missing e fs (path_join filesDir storageName)\<close> len
      show ?thesis by (subst find_storage_name.simps) simp
    next
      case False
      with less.prems have k: "prefixSize = 32" by simp
      have "\<exists>n. find_storage_name e fs filesDir md5 base prefixSize (prefixNum + 1)
                  (storage_name md5 prefixSize (prefixNum + 1) base) = Some (Returns n)"
      proof (rule less.hyps)
        show "32 - prefixSize + nat (j - (prefixNum + 1)) < 32 - prefixSize + nat (j - prefixNum)"
          using lt by simp
        show "prefixSize \<le> 32" using k by simp
        show "prefixNum + 1 < j \<or>
              \<not> stat_not_missing e fs
                  (path_join filesDir (storage_name md5 prefixSize (prefixNum + 1) base))"
        proof (cases "prefixNum + 1 < j")
          case True then show ?thesis by simp
        next
          case False
          with lt have "prefixNum + 1 = j" by simp
          with missing k show ?thesis by simp
        qed
      qed
      with k \<open>stat_not_missing e fs (path_join filesDir storageName)\<close> len
      show ?thesis by (subst find_storage_name.simps) simp
    qed
  qed
qed

subsection \<open>The third directory check\<close>

lemma prepare_never_new_version_dir:
  "prepare e fs repoDir filesDir newVersionDir \<noteq> Inl (Failed NewVersionDirError c) \<and>
   prepare e fs repoDir filesDir newVersionDir \<noteq> Inl (Failed NewVersionNotDir c)"
  by (auto simp: prepare_def check_dir_def read_index_def
      split: outcome.splits sum.splits option.splits if_splits)

lemma demo_prepare_missing:
  "prepare demo_env demo_fs ''repo'' ''store'' ''missing'' = Inl (Failed NewVersionMD5Error 30)"
  by (simp add: prepare_def demo_env_sel os_defs path_defs scan_defs json_defs demo_fs_apply)

text \<open>
  Claim C6 on the code: the new version's directory \<open>missing\<close> does not exist, the
  third check looks at the storage directory again and passes, and the run fails later,
  in the MD5 scan of the new version's directory, with exit code 30.
\<close>

theorem UpdateRepo_missing_source_dir:
  "os_Stat demo_env demo_fs ''missing'' = Inl ErrNotExist \<and>
   check_dir demo_env demo_fs ''missing'' NewVersionDirError 12 22 NewVersionNotDir 12 =
     Failed NewVersionDirError 12 \<and>
   UpdateRepo demo_env demo_fs ''repo'' ''store'' ''http://x'' ''missing'' ''1.0'' 1 =
     Some (demo_fs, Failed NewVersionMD5Error 30)"
  using UpdateRepo_prepare_fails[OF demo_prepare_missing, of "''http://x''" "''1.0''" 1]
  by (simp add: demo_env_sel os_defs demo_fs_apply)

lemma denied_env_sel:
  "fault denied_env SysStat = (\<lambda>p. if p = ''repo'' \<or> p = ''store'' then None else Some ErrPermission)"
  "fault denied_env SysOpenRead = (\<lambda>p. None)"
  "fault denied_env SysCreateExcl = (\<lambda>p. None)"
  "fault denied_env SysOpenWrite = (\<lambda>p. None)"
  "RecursiveMD5Calc denied_env = demo_RecursiveMD5Calc"
  "Unmarshal denied_env = demo_Unmarshal"
  "MarshalIndex denied_env = json_index"
  "MarshalVersion denied_env = json_version"
  by (simp_all add: denied_env_def demo_env_def)

lemma denied_prepare_new:
  "prepare denied_env demo_fs ''repo'' ''store'' ''new'' =
     Inr (empty_index,
          [\<lparr>Path = ''a.txt'', MD5 = ''abcd5e0f1a2b3c4d5e6f708192a3b4c5''\<rparr>,
           \<lparr>Path = ''b.txt'', MD5 = ''1234aa55aa55aa55aa55aa55aa55aa55''\<rparr>],
          [])"
  by (simp add: prepare_def denied_env_sel os_defs path_defs scan_defs json_defs demo_fs_apply)

lemma denied_probes: "\<forall>n. stat_not_missing denied_env demo_fs (path_join ''store'' n)"
  by (auto simp: stat_not_missing_def os_Stat_def denied_env_sel path_join_def demo_fs_apply)

lemma denied_diff_new:
  "diff_files denied_env demo_fs ''store''
          [\<lparr>Path = ''a.txt'', MD5 = ''abcd5e0f1a2b3c4d5e6f708192a3b4c5''\<rparr>,
           \<lparr>Path = ''b.txt'', MD5 = ''1234aa55aa55aa55aa55aa55aa55aa55''\<rparr>]
          (with_dummy []) [] [] = None"
proof -
  have "new_storage_name denied_env demo_fs ''store''
          \<lparr>Path = ''a.txt'', MD5 = ''abcd5e0f1a2b3c4d5e6f708192a3b4c5''\<rparr> = None"
    unfolding new_storage_name_def
    using find_storage_name_never_returns[OF denied_probes,
        of "''abcd5e0f1a2b3c4d5e6f708192a3b4c5''" 4]
    by simp
  then show ?thesis by (simp add: with_dummy_def)
qed

lemma denied_publish_new:
  "UpdateRepo denied_env demo_fs ''repo'' ''store'' ''http://x'' ''new'' ''1.0'' 1 = None"
  by (simp add: UpdateRepo_def denied_prepare_new denied_diff_new del: diff_files.simps)

text \<open>
  Claim C5 on the code: the tree \<open>col\<close> holds two files whose first name
  \<open>abcd-x.txt\<close> is the same. Both names are chosen before anything is copied, so both
  files get that name, and the second copy fails on the exclusive create, exit code 42.
  And where \<open>os.Stat\<close> answers every probe in the storage directory with "permission
  denied", the loop goes on for ever and \<open>UpdateRepo\<close> does not return.
\<close>

theorem UpdateRepo_colliding_names:
  "diff_files demo_env demo_fs ''store''
     [\<lparr>Path = ''p/x.txt'', MD5 = ''abcd5e0f1a2b3c4d5e6f708192a3b4c5''\<rparr>,
      \<lparr>Path = ''q/x.txt'', MD5 = ''abcd99887766554433221100ffeeddcc''\<rparr>]
     (with_dummy []) [] [] =
   Some (Returns ([],
     [\<lparr>FileStoragePath = ''abcd-x.txt'', InstallPath = ''p/x.txt'',
       fsdMD5 = ''abcd5e0f1a2b3c4d5e6f708192a3b4c5''\<rparr>,
      \<lparr>FileStoragePath = ''abcd-x.txt'', InstallPath = ''q/x.txt'',
       fsdMD5 = ''abcd99887766554433221100ffeeddcc''\<rparr>])) \<and>
   UpdateRepo demo_env demo_fs ''repo'' ''store'' ''http://x'' ''col'' ''2.0'' 2 =
     Some (demo_fs(''store/abcd-x.txt'' \<mapsto> File ''alpha''), Failed CreateFileError 42) \<and>
   UpdateRepo denied_env demo_fs ''repo'' ''store'' ''http://x'' ''new'' ''1.0'' 1 = None"
  using demo_diff_col demo_publish_col denied_publish_new by blast

lemma indented_fs_apply:
  "indented_fs p = (if p = ''repo/index.json'' then Some (File indented_index_text) else demo_fs p)"
  by (simp add: indented_fs_def)

lemma indented_length: "length indented_index_text = 230"
  by (simp add: indented_index_text_def unlines_def)

lemma nightly_length:
  "length (json_index
     \<lparr>Channels = [\<lparr>Id = ''stable'', Name = ''Stable'', CurrentVersion = 1\<rparr>,
                  \<lparr>Id = ''nightly'', Name = ''nightly'', CurrentVersion = 0\<rparr>],
      Versions = [\<lparr>vsId = 1, vsName = ''1.0''\<rparr>]\<rparr>) = 153"
  by (simp add: json_defs path_defs)

lemma indented_prepare_new:
  "prepare demo_env indented_fs ''repo'' ''store'' ''new'' =
     Inr (one_channel_index,
          [\<lparr>Path = ''a.txt'', MD5 = ''abcd5e0f1a2b3c4d5e6f708192a3b4c5''\<rparr>,
           \<lparr>Path = ''b.txt'', MD5 = ''1234aa55aa55aa55aa55aa55aa55aa55''\<rparr>],
          [])"
proof -
  have u: "demo_Unmarshal indented_index_text = Some one_channel_index"
    by (simp add: demo_Unmarshal_def)
  show ?thesis
    by (simp add: prepare_def u demo_env_sel os_defs index_file_def path_join_def
        demo_RecursiveMD5Calc_def demo_scan_def demo_names_def demo_md5_def
        indented_fs_apply demo_fs_apply)
qed

lemma indented_diff_new:
  "diff_files demo_env indented_fs ''store''
          [\<lparr>Path = ''a.txt'', MD5 = ''abcd5e0f1a2b3c4d5e6f708192a3b4c5''\<rparr>,
           \<lparr>Path = ''b.txt'', MD5 = ''1234aa55aa55aa55aa55aa55aa55aa55''\<rparr>]
          (with_dummy []) [] [] =
    Some (Returns ([],
      [\<lparr>FileStoragePath = ''abcd-a.txt'', InstallPath = ''a.txt'', fsdMD5 = ''abcd5e0f1a2b3c4d5e6f708192a3b4c5''\<rparr>,
       \<lparr>FileStoragePath = ''1234-b.txt'', InstallPath = ''b.txt'', fsdMD5 = ''1234aa55aa55aa55aa55aa55aa55aa55''\<rparr>]))"
  by (simp add: with_dummy_def new_storage_name_def find_storage_name.simps
      demo_env_sel os_defs path_defs indented_fs_apply demo_fs_apply)

lemma indented_copy_new:
  "copy_files demo_env indented_fs ''store'' ''new''
      [\<lparr>FileStoragePath = ''abcd-a.txt'', InstallPath = ''a.txt'', fsdMD5 = ''abcd5e0f1a2b3c4d5e6f708192a3b4c5''\<rparr>,
       \<lparr>FileStoragePath = ''1234-b.txt'', InstallPath = ''b.txt'', fsdMD5 = ''1234aa55aa55aa55aa55aa55aa55aa55''\<rparr>]
      [] =
     (indented_fs(''store/abcd-a.txt'' \<mapsto> File ''alpha'', ''store/1234-b.txt'' \<mapsto> File ''gamma''),
      Inr [\<lparr>FileStoragePath = ''abcd-a.txt'', InstallPath = ''a.txt'', fsdMD5 = ''abcd5e0f1a2b3c4d5e6f708192a3b4c5''\<rparr>,
           \<lparr>FileStoragePath = ''1234-b.txt'', InstallPath = ''b.txt'', fsdMD5 = ''1234aa55aa55aa55aa55aa55aa55aa55''\<rparr>])"
  by (simp add: demo_env_sel os_defs path_defs indented_fs_apply demo_fs_apply)

lemma two_versions_length:
  "length (json_index
     \<lparr>Channels = [\<lparr>Id = ''stable'', Name = ''Stable'', CurrentVersion = 1\<rparr>],
      Versions = [\<lparr>vsId = 1, vsName = ''1.0''\<rparr>, \<lparr>vsId = 2, vsName = ''2.0''\<rparr>]\<rparr>) = 122"
  by (simp add: json_defs path_defs)

lemma indented_write_new:
  "write_version_and_index demo_env
     (indented_fs(''store/abcd-a.txt'' \<mapsto> File ''alpha'', ''store/1234-b.txt'' \<mapsto> File ''gamma''))
     ''repo''
     (build_version 2 ''2.0'' (with_slash ''http://x'')
        [\<lparr>FileStoragePath = ''abcd-a.txt'', InstallPath = ''a.txt'', fsdMD5 = ''abcd5e0f1a2b3c4d5e6f708192a3b4c5''\<rparr>,
         \<lparr>FileStoragePath = ''1234-b.txt'', InstallPath = ''b.txt'', fsdMD5 = ''1234aa55aa55aa55aa55aa55aa55aa55''\<rparr>])
     (one_channel_index\<lparr>Versions := Versions one_channel_index @ [\<lparr>vsId = 2, vsName = ''2.0''\<rparr>]\<rparr>) =
   (indented_fs(''store/abcd-a.txt'' \<mapsto> File ''alpha'', ''store/1234-b.txt'' \<mapsto> File ''gamma'',
        ''repo/2.json'' \<mapsto> File (json_version
           (build_version 2 ''2.0'' (with_slash ''http://x'')
             [\<lparr>FileStoragePath = ''abcd-a.txt'', InstallPath = ''a.txt'', fsdMD5 = ''abcd5e0f1a2b3c4d5e6f708192a3b4c5''\<rparr>,
              \<lparr>FileStoragePath = ''1234-b.txt'', InstallPath = ''b.txt'', fsdMD5 = ''1234aa55aa55aa55aa55aa55aa55aa55''\<rparr>])),
        ''repo/index.json'' \<mapsto>
          File (json_index
                  \<lparr>Channels = [\<lparr>Id = ''stable'', Name = ''Stable'', CurrentVersion = 1\<rparr>],
                   Versions = [\<lparr>vsId = 1, vsName = ''1.0''\<rparr>, \<lparr>vsId = 2, vsName = ''2.0''\<rparr>]\<rparr> @
                drop 122 indented_index_text)),
    Success)"
  by (simp add: write_version_and_index_def one_channel_index_def two_versions_length
      demo_env_sel os_defs index_file_def version_file_def path_join_def itoa_def show_nat.simps
      indented_fs_apply demo_fs_apply)

lemma indented_publish_new:
  "UpdateRepo demo_env indented_fs ''repo'' ''store'' ''http://x'' ''new'' ''2.0'' 2 =
   Some (indented_fs(''store/abcd-a.txt'' \<mapsto> File ''alpha'', ''store/1234-b.txt'' \<mapsto> File ''gamma'',
        ''repo/2.json'' \<mapsto> File (json_version
           (build_version 2 ''2.0'' (with_slash ''http://x'')
             [\<lparr>FileStoragePath = ''abcd-a.txt'', InstallPath = ''a.txt'', fsdMD5 = ''abcd5e0f1a2b3c4d5e6f708192a3b4c5''\<rparr>,
              \<lparr>FileStoragePath = ''1234-b.txt'', InstallPath = ''b.txt'', fsdMD5 = ''1234aa55aa55aa55aa55aa55aa55aa55''\<rparr>])),
        ''repo/index.json'' \<mapsto>
          File (json_index
                  \<lparr>Channels = [\<lparr>Id = ''stable'', Name = ''Stable'', CurrentVersion = 1\<rparr>],
                   Versions = [\<lparr>vsId = 1, vsName = ''1.0''\<rparr>, \<lparr>vsId = 2, vsName = ''2.0''\<rparr>]\<rparr> @
                drop 122 indented_index_text)),
    Success)"
  using UpdateRepo_writes[OF indented_prepare_new indented_diff_new indented_copy_new,
      of "''http://x''" "''2.0''" 2]
  by (simp only: indented_write_new)

text \<open>
  Claim C7 on the code: the index file holds the indented text of 230 bytes.
  \<open>CreateChan\<close> writes the 153 bytes of the new index at offset 0 and does not truncate,
  so the last 77 bytes of the old text stay behind the new index: the file is not the
  serialization of the index that was saved. \<open>UpdateRepo\<close> does the same with the 122
  bytes of its new index. \<open>SetChan\<close>, which opens the file with \<open>O_TRUNC\<close>, leaves
  exactly the serialization.
\<close>

theorem CreateChan_leaves_old_bytes:
  "CreateChan demo_env indented_fs ''repo'' ''nightly'' =
     (indented_fs(''repo/index.json'' \<mapsto>
        File (json_index
                \<lparr>Channels = [\<lparr>Id = ''stable'', Name = ''Stable'', CurrentVersion = 1\<rparr>,
                             \<lparr>Id = ''nightly'', Name = ''nightly'', CurrentVersion = 0\<rparr>],
                 Versions = [\<lparr>vsId = 1, vsName = ''1.0''\<rparr>]\<rparr> @
              drop 153 indented_index_text)),
      Success) \<and>
   length (drop 153 indented_index_text) = 77 \<and>
   UpdateRepo demo_env indented_fs ''repo'' ''store'' ''http://x'' ''new'' ''2.0'' 2 =
     Some (indented_fs(''store/abcd-a.txt'' \<mapsto> File ''alpha'', ''store/1234-b.txt'' \<mapsto> File ''gamma'',
        ''repo/2.json'' \<mapsto> File (json_version
           (build_version 2 ''2.0'' (with_slash ''http://x'')
             [\<lparr>FileStoragePath = ''abcd-a.txt'', InstallPath = ''a.txt'', fsdMD5 = ''abcd5e0f1a2b3c4d5e6f708192a3b4c5''\<rparr>,
              \<lparr>FileStoragePath = ''1234-b.txt'', InstallPath = ''b.txt'', fsdMD5 = ''1234aa55aa55aa55aa55aa55aa55aa55''\<rparr>])),
        ''repo/index.json'' \<mapsto>
          File (json_index
                  \<lparr>Channels = [\<lparr>Id = ''stable'', Name = ''Stable'', CurrentVersion = 1\<rparr>],
                   Versions = [\<lparr>vsId = 1, vsName = ''1.0''\<rparr>, \<lparr>vsId = 2, vsName = ''2.0''\<rparr>]\<rparr> @
                drop 122 indented_index_text)),
       Success) \<and>
   length (drop 122 indented_index_text) = 108 \<and>
   SetChan demo_env indented_fs ''repo'' ''nightly'' 0 =
     (indented_fs(''repo/index.json'' \<mapsto>
        File (json_index
                \<lparr>Channels = [\<lparr>Id = ''stable'', Name = ''Stable'', CurrentVersion = 1\<rparr>,
                             \<lparr>Id = ''nightly'', Name = ''nightly'', CurrentVersion = 0\<rparr>],
                 Versions = [\<lparr>vsId = 1, vsName = ''1.0''\<rparr>]\<rparr>)),
      Success)"
proof -
  have u: "demo_Unmarshal indented_index_text = Some one_channel_index"
    by (simp add: demo_Unmarshal_def)
  have c: "CreateChan demo_env indented_fs ''repo'' ''nightly'' =
     (indented_fs(''repo/index.json'' \<mapsto>
        File (json_index
                \<lparr>Channels = [\<lparr>Id = ''stable'', Name = ''Stable'', CurrentVersion = 1\<rparr>,
                             \<lparr>Id = ''nightly'', Name = ''nightly'', CurrentVersion = 0\<rparr>],
                 Versions = [\<lparr>vsId = 1, vsName = ''1.0''\<rparr>]\<rparr> @
              drop 153 indented_index_text)),
      Success)"
    by (simp add: CreateChan_def createchan_index_def u one_channel_index_def nightly_length
        demo_env_sel os_defs index_file_def path_join_def indented_fs_apply demo_fs_apply)
  have s: "SetChan demo_env indented_fs ''repo'' ''nightly'' 0 =
     (indented_fs(''repo/index.json'' \<mapsto>
        File (json_index
                \<lparr>Channels = [\<lparr>Id = ''stable'', Name = ''Stable'', CurrentVersion = 1\<rparr>,
                             \<lparr>Id = ''nightly'', Name = ''nightly'', CurrentVersion = 0\<rparr>],
                 Versions = [\<lparr>vsId = 1, vsName = ''1.0''\<rparr>]\<rparr>)),
      Success)"
    by (simp add: SetChan_def setchan_index_def u one_channel_index_def OpenFile_trunc_def
        demo_env_sel os_defs index_file_def path_join_def indented_fs_apply demo_fs_apply)
  from c s indented_publish_new show ?thesis by (simp add: indented_length)
qed

subsection \<open>Matching against the storage scan\<close>




















subsection \<open>Publishing a tree a second time\<close>














end
